theory Spec2Isabelle
  imports Main
begin

section \<open>Data model (types.ts)\<close>

text \<open>
  The interfaces of \<^verbatim>\<open>types.ts\<close>. An optional field (\<^verbatim>\<open>refreshToken?: string\<close>) is an
  \<open>option\<close>, \<open>None\<close> standing for \<^verbatim>\<open>undefined\<close>. \<^verbatim>\<open>expiresAt\<close> and every other
  timestamp is a count of milliseconds, as \<^verbatim>\<open>Date.now()\<close> returns it, modelled as \<open>int\<close>.
\<close>

record User =
  id :: string
  email :: string
  name :: string
  avatar :: "string option"
  role :: "string option"
  permissions :: "string list option"

record AuthTokens =
  accessToken :: string
  refreshToken :: "string option"
  idToken :: "string option"
  expiresAt :: int

record LoginCredentials =
  login_email :: string
  password :: string

text \<open>The argument of \<^verbatim>\<open>storeBiometricCredentials\<close>: \<^verbatim>\<open>{ email, hashedPassword }\<close>.\<close>

record BiometricCredentials =
  credentials_email :: string
  hashedPassword :: string

text \<open>
  \<^verbatim>\<open>AuthConfig\<close>. \<^verbatim>\<open>oauth?.google\<close> and \<^verbatim>\<open>oauth?.microsoft\<close> are read only through
  optional chaining, so the two are kept as optional fields of the configuration itself.
\<close>

record GoogleOAuthConfig =
  google_clientId :: string
  google_scopes :: "string list option"

record MicrosoftOAuthConfig =
  microsoft_clientId :: string
  microsoft_tenantId :: "string option"
  microsoft_scopes :: "string list option"

record AuthConfig =
  apiBaseUrl :: string
  sessionTimeout :: int
  config_enableBiometrics :: bool
  biometricPrompt :: "string option"
  enableAutoRefresh :: bool
  oauth_google :: "GoogleOAuthConfig option"
  oauth_microsoft :: "MicrosoftOAuthConfig option"

text \<open>\<^verbatim>\<open>LoginResponse\<close> of \<^verbatim>\<open>api.ts\<close>; \<^verbatim>\<open>user\<close> is whatever the server's reply held.\<close>

record LoginResponse =
  response_user :: "User option"
  response_tokens :: AuthTokens

record BiometricCapabilities =
  isAvailable :: bool
  hasHardware :: bool
  isEnrolled :: bool
  supportedTypes :: "string list"

text \<open>
  The state of the \<^verbatim>\<open>AuthProvider\<close> component (its four \<^verbatim>\<open>useState\<close> cells).
\<close>

record session =
  user :: "User option"
  tokens :: "AuthTokens option"
  isLoading :: bool
  error :: "string option"

text \<open>
  A thrown JavaScript value: \<^verbatim>\<open>new Error(message)\<close>, or the \<^verbatim>\<open>TypeError\<close> the runtime
  raises when a property of \<^verbatim>\<open>undefined\<close> is read.
\<close>

datatype js_error = Error string | TypeError string

fun error_message :: "js_error \<Rightarrow> string" where
  "error_message (Error m) = m"
| "error_message (TypeError m) = m"

text \<open>Truthiness of an optional string: \<^verbatim>\<open>undefined\<close>, \<^verbatim>\<open>null\<close> and \<^verbatim>\<open>''\<close> are falsy.\<close>

fun truthy :: "string option \<Rightarrow> bool" where
  "truthy None = False"
| "truthy (Some s) = (s \<noteq> [])"

section \<open>The platform stores\<close>

text \<open>
  \<^verbatim>\<open>expo-secure-store\<close> and \<^verbatim>\<open>AsyncStorage\<close> are key-value stores of strings, outside the
  repository. A stored string is either a plain string (\<open>Raw\<close>) or the text that
  \<^verbatim>\<open>JSON.stringify\<close> made of a record; the latter is kept as the record it denotes, so that
  \<^verbatim>\<open>JSON.parse\<close> of it gives the record back (an optional field that is \<^verbatim>\<open>undefined\<close> is
  left out by \<^verbatim>\<open>JSON.stringify\<close> and reads back \<^verbatim>\<open>undefined\<close>). The class writes each
  key with texts of one kind only; in the model a text of another kind than the one a
  reader expects does not parse.
\<close>

datatype stored_text =
  Raw string
| TokensJson AuthTokens
| UserJson User
| CredentialsJson BiometricCredentials

text \<open>\<^verbatim>\<open>!text\<close>: only the empty string is falsy; the text of a record is never empty.\<close>

fun nonempty :: "stored_text option \<Rightarrow> bool" where
  "nonempty None = False"
| "nonempty (Some (Raw s)) = (s \<noteq> [])"
| "nonempty (Some _) = True"

fun JSON_parse_tokens :: "stored_text \<Rightarrow> js_error + AuthTokens" where
  "JSON_parse_tokens (TokensJson t) = Inr t"
| "JSON_parse_tokens _ = Inl (Error ''SyntaxError'')"

fun JSON_parse_user :: "stored_text \<Rightarrow> js_error + User" where
  "JSON_parse_user (UserJson u) = Inr u"
| "JSON_parse_user _ = Inl (Error ''SyntaxError'')"

fun JSON_parse_credentials :: "stored_text \<Rightarrow> js_error + BiometricCredentials" where
  "JSON_parse_credentials (CredentialsJson c) = Inr c"
| "JSON_parse_credentials _ = Inl (Error ''SyntaxError'')"

text \<open>
  A request sent with \<^verbatim>\<open>fetch\<close>: the URL, the bearer token of the
  \<^verbatim>\<open>Authorization\<close> header when there is one, and the fields of the JSON body.
\<close>

record request =
  url :: string
  bearer :: "string option"
  body :: "(string \<times> string) list"

text \<open>
  A call of a React state setter. The component's functions read \<^verbatim>\<open>user\<close>,
  \<^verbatim>\<open>tokens\<close> from the render they were created in and write through the setters; the
  writes are kept in order and applied to the state afterwards.
\<close>

datatype update =
  SetUser "User option"
| SetTokens "AuthTokens option"
| SetIsLoading bool
| SetError "string option"

text \<open>
  Everything outside the component's state that an operation changes: the two stores,
  the schedule of store faults (one entry is used up by each call of a store primitive,
  \<open>True\<close> meaning that the call throws; an exhausted schedule means no fault), the
  static \<^verbatim>\<open>AuthAPI.config\<close> (\<open>None\<close> until \<^verbatim>\<open>AuthAPI.initialize\<close> has run), the requests
  sent so far, the biometric prompts shown so far, and the state setter calls made so
  far.
\<close>

record world =
  secure :: "string \<rightharpoonup> stored_text"
  async :: "string \<rightharpoonup> stored_text"
  faults :: "bool list"
  api_config :: "AuthConfig option"
  requests :: "request list"
  prompts :: "string list"
  updates :: "update list"

text \<open>An asynchronous function that may reject: it returns the error or the value, and the world.\<close>

type_synonym 'a promise = "world \<Rightarrow> (js_error + 'a) \<times> world"

definition resolve :: "'a \<Rightarrow> 'a promise" where
  "resolve x w = (Inr x, w)"

definition throw :: "js_error \<Rightarrow> 'a promise" where
  "throw e w = (Inl e, w)"

text \<open>\<^verbatim>\<open>const x = await m; k(x)\<close>: a rejection of \<open>m\<close> skips \<open>k\<close>.\<close>

definition await :: "'a promise \<Rightarrow> ('a \<Rightarrow> 'b promise) \<Rightarrow> 'b promise" where
  "await m k w = (case m w of (Inl e, w') \<Rightarrow> (Inl e, w') | (Inr x, w') \<Rightarrow> k x w')"

text \<open>\<^verbatim>\<open>try { m } catch (error) { h(error) }\<close>.\<close>

definition try_catch :: "'a promise \<Rightarrow> (js_error \<Rightarrow> 'a promise) \<Rightarrow> 'a promise" where
  "try_catch m h w = (case m w of (Inl e, w') \<Rightarrow> h e w' | (Inr x, w') \<Rightarrow> (Inr x, w'))"

text \<open>
  \<^verbatim>\<open>try { m } finally { f }\<close>: \<open>f\<close> runs on both exits; the outcome of \<open>m\<close> stands
  unless \<open>f\<close> itself throws.
\<close>

definition try_finally :: "'a promise \<Rightarrow> unit promise \<Rightarrow> 'a promise" where
  "try_finally m f w =
     (case m w of (r, w') \<Rightarrow>
        (case f w' of (Inl e, w'') \<Rightarrow> (Inl e, w'') | (Inr _, w'') \<Rightarrow> (r, w'')))"

text \<open>
  \<^verbatim>\<open>await Promise.all([a, b])\<close> where each of \<open>a\<close> and \<open>b\<close> issues all its store calls
  when it is started (one call, or a \<^verbatim>\<open>Promise.all\<close> of such): the calls are issued in
  the order of the array, and each member runs to its end whatever becomes of the
  other. The result is the pair of values, or a rejection. When both members reject,
  which rejection \<^verbatim>\<open>Promise.all\<close> reports depends on which settles first; the model
  reports that of the first in the array.
\<close>

definition Promise_all2 :: "'a promise \<Rightarrow> 'b promise \<Rightarrow> ('a \<times> 'b) promise" where
  "Promise_all2 a b w =
     (case a w of (ra, w1) \<Rightarrow>
        (case b w1 of (rb, w2) \<Rightarrow>
           (case ra of
              Inl e \<Rightarrow> (Inl e, w2)
            | Inr x \<Rightarrow> (case rb of Inl e \<Rightarrow> (Inl e, w2) | Inr y \<Rightarrow> (Inr (x, y), w2)))))"

text \<open>A promise that has settled already, with the outcome \<open>r\<close>.\<close>

definition settled :: "js_error + 'a \<Rightarrow> 'a promise" where
  "settled r w = (r, w)"

text \<open>
  \<^verbatim>\<open>await Promise.all([a, b])\<close> where \<open>a\<close> suspends at its first store call and makes
  further calls only once that one has settled, and \<open>b\<close> issues its calls when it is
  started: \<open>a\<close> is started and issues its first call (\<open>first\<close>), then \<open>b\<close> is started
  and issues its calls, and only then does \<open>a\<close> go on from the outcome of its first call
  (\<open>rest\<close>). The result is as for \<open>Promise_all2\<close>.
\<close>

definition Promise_all2_staged ::
  "'c promise \<Rightarrow> (js_error + 'c \<Rightarrow> 'a promise) \<Rightarrow> 'b promise \<Rightarrow> ('a \<times> 'b) promise" where
  "Promise_all2_staged first rest b w =
     (case first w of (r1, w1) \<Rightarrow>
        (case b w1 of (rb, w2) \<Rightarrow>
           (case rest r1 w2 of (ra, w3) \<Rightarrow>
              (case ra of
                 Inl e \<Rightarrow> (Inl e, w3)
               | Inr x \<Rightarrow> (case rb of Inl e \<Rightarrow> (Inl e, w3) | Inr y \<Rightarrow> (Inr (x, y), w3))))))"

text \<open>The next entry of the fault schedule.\<close>

definition next_fault :: "world \<Rightarrow> bool \<times> world" where
  "next_fault w =
     (case faults w of [] \<Rightarrow> (False, w) | f # fs \<Rightarrow> (f, w\<lparr>faults := fs\<rparr>))"

text \<open>
  The primitives of \<^verbatim>\<open>expo-secure-store\<close>. A call that faults throws and leaves the store
  as it was.
\<close>

definition SecureStore_setItemAsync :: "string \<Rightarrow> stored_text \<Rightarrow> unit promise" where
  "SecureStore_setItemAsync k v w =
     (case next_fault w of
        (True, w') \<Rightarrow> (Inl (Error ''SecureStore fault''), w')
      | (False, w') \<Rightarrow> (Inr (), w'\<lparr>secure := (secure w')(k \<mapsto> v)\<rparr>))"

definition SecureStore_getItemAsync :: "string \<Rightarrow> stored_text option promise" where
  "SecureStore_getItemAsync k w =
     (case next_fault w of
        (True, w') \<Rightarrow> (Inl (Error ''SecureStore fault''), w')
      | (False, w') \<Rightarrow> (Inr (secure w' k), w'))"

definition SecureStore_deleteItemAsync :: "string \<Rightarrow> unit promise" where
  "SecureStore_deleteItemAsync k w =
     (case next_fault w of
        (True, w') \<Rightarrow> (Inl (Error ''SecureStore fault''), w')
      | (False, w') \<Rightarrow> (Inr (), w'\<lparr>secure := (secure w')(k := None)\<rparr>))"

text \<open>The primitives of \<^verbatim>\<open>AsyncStorage\<close>.\<close>

definition AsyncStorage_setItem :: "string \<Rightarrow> stored_text \<Rightarrow> unit promise" where
  "AsyncStorage_setItem k v w =
     (case next_fault w of
        (True, w') \<Rightarrow> (Inl (Error ''AsyncStorage fault''), w')
      | (False, w') \<Rightarrow> (Inr (), w'\<lparr>async := (async w')(k \<mapsto> v)\<rparr>))"

definition AsyncStorage_getItem :: "string \<Rightarrow> stored_text option promise" where
  "AsyncStorage_getItem k w =
     (case next_fault w of
        (True, w') \<Rightarrow> (Inl (Error ''AsyncStorage fault''), w')
      | (False, w') \<Rightarrow> (Inr (async w' k), w'))"

definition AsyncStorage_removeItem :: "string \<Rightarrow> unit promise" where
  "AsyncStorage_removeItem k w =
     (case next_fault w of
        (True, w') \<Rightarrow> (Inl (Error ''AsyncStorage fault''), w')
      | (False, w') \<Rightarrow> (Inr (), w'\<lparr>async := (async w')(k := None)\<rparr>))"

section \<open>AuthStorage (storage.ts)\<close>

text \<open>\<^verbatim>\<open>STORAGE_KEYS\<close>, and the key of the biometric credentials, which the source writes out.\<close>

abbreviation TOKENS :: string where "TOKENS \<equiv> ''bca_auth_tokens''"
abbreviation USER :: string where "USER \<equiv> ''bca_auth_user''"
abbreviation BIOMETRIC_ENABLED :: string where "BIOMETRIC_ENABLED \<equiv> ''bca_biometric_enabled''"
abbreviation REFRESH_TOKEN :: string where "REFRESH_TOKEN \<equiv> ''bca_refresh_token''"
abbreviation BIOMETRIC_CREDENTIALS :: string where
  "BIOMETRIC_CREDENTIALS \<equiv> ''bca_biometric_credentials''"

definition AuthStorage_storeTokens :: "AuthTokens \<Rightarrow> unit promise" where
  "AuthStorage_storeTokens t =
     try_catch
       (await (SecureStore_setItemAsync TOKENS (TokensJson t)) (\<lambda>_.
          if truthy (refreshToken t)
          then SecureStore_setItemAsync REFRESH_TOKEN (Raw (the (refreshToken t)))
          else resolve ()))
       (\<lambda>err. throw (Error ''Failed to store authentication tokens''))"

text \<open>
  \<^verbatim>\<open>storeTokens\<close> from the point where its first write has settled with the outcome
  \<open>r\<close>: the same body, with the settled promise in the place of the first call (lemma
  \<open>storeTokens_staged\<close>).
\<close>

definition storeTokens_rest :: "AuthTokens \<Rightarrow> js_error + unit \<Rightarrow> unit promise" where
  "storeTokens_rest t r =
     try_catch
       (await (settled r) (\<lambda>_.
          if truthy (refreshToken t)
          then SecureStore_setItemAsync REFRESH_TOKEN (Raw (the (refreshToken t)))
          else resolve ()))
       (\<lambda>err. throw (Error ''Failed to store authentication tokens''))"

text \<open>
  \<^verbatim>\<open>REFRESH_TOKEN\<close> is only ever written with a plain string; a non-empty string read
  from it replaces the record's \<^verbatim>\<open>refreshToken\<close>. (The text of a record under that
  key, which nothing here writes, is read as no string.)
\<close>

fun the_string :: "stored_text option \<Rightarrow> string" where
  "the_string (Some (Raw s)) = s"
| "the_string _ = []"

definition AuthStorage_getTokens :: "AuthTokens option promise" where
  "AuthStorage_getTokens =
     try_catch
       (await (SecureStore_getItemAsync TOKENS) (\<lambda>tokensJson.
          if \<not> nonempty tokensJson then resolve None
          else
            (case JSON_parse_tokens (the tokensJson) of
               Inl e \<Rightarrow> throw e
             | Inr t \<Rightarrow>
                 await (SecureStore_getItemAsync REFRESH_TOKEN) (\<lambda>r.
                   if truthy (Some (the_string r))
                   then resolve (Some (t\<lparr>refreshToken := Some (the_string r)\<rparr>))
                   else resolve (Some t)))))
       (\<lambda>err. resolve None)"

text \<open>
  \<^verbatim>\<open>getTokens\<close> from the point where its first read has settled with the outcome \<open>r\<close>
  (lemma \<open>getTokens_staged\<close>).
\<close>

definition getTokens_rest :: "js_error + stored_text option \<Rightarrow> AuthTokens option promise" where
  "getTokens_rest r =
     try_catch
       (await (settled r) (\<lambda>tokensJson.
          if \<not> nonempty tokensJson then resolve None
          else
            (case JSON_parse_tokens (the tokensJson) of
               Inl e \<Rightarrow> throw e
             | Inr t \<Rightarrow>
                 await (SecureStore_getItemAsync REFRESH_TOKEN) (\<lambda>r.
                   if truthy (Some (the_string r))
                   then resolve (Some (t\<lparr>refreshToken := Some (the_string r)\<rparr>))
                   else resolve (Some t)))))
       (\<lambda>err. resolve None)"

definition AuthStorage_clearTokens :: "unit promise" where
  "AuthStorage_clearTokens =
     try_catch
       (await (Promise_all2 (SecureStore_deleteItemAsync TOKENS)
                            (SecureStore_deleteItemAsync REFRESH_TOKEN))
              (\<lambda>_. resolve ()))
       (\<lambda>err. resolve ())"

text \<open>
  \<^verbatim>\<open>storeUser\<close> is typed for a \<^verbatim>\<open>User\<close>, but the callers hand it \<^verbatim>\<open>response.user\<close>
  unchecked. \<^verbatim>\<open>JSON.stringify(undefined)\<close> is \<^verbatim>\<open>undefined\<close>, a value
  \<^verbatim>\<open>AsyncStorage.setItem\<close> refuses by throwing before it reaches the store.
\<close>

definition AuthStorage_storeUser :: "User option \<Rightarrow> unit promise" where
  "AuthStorage_storeUser u =
     try_catch
       (case u of
          None \<Rightarrow> throw (Error ''Passing null/undefined as value is not supported'')
        | Some u' \<Rightarrow> AsyncStorage_setItem USER (UserJson u'))
       (\<lambda>err. throw (Error ''Failed to store user information''))"

definition AuthStorage_getUser :: "User option promise" where
  "AuthStorage_getUser =
     try_catch
       (await (AsyncStorage_getItem USER) (\<lambda>userJson.
          if nonempty userJson
          then (case JSON_parse_user (the userJson) of
                  Inl e \<Rightarrow> throw e | Inr u \<Rightarrow> resolve (Some u))
          else resolve None))
       (\<lambda>err. resolve None)"

definition AuthStorage_clearUser :: "unit promise" where
  "AuthStorage_clearUser = try_catch (AsyncStorage_removeItem USER) (\<lambda>err. resolve ())"

definition AuthStorage_isBiometricEnabled :: "bool promise" where
  "AuthStorage_isBiometricEnabled =
     try_catch
       (await (AsyncStorage_getItem BIOMETRIC_ENABLED) (\<lambda>enabled.
          resolve (enabled = Some (Raw ''true''))))
       (\<lambda>err. resolve False)"

definition AuthStorage_setBiometricEnabled :: "bool \<Rightarrow> unit promise" where
  "AuthStorage_setBiometricEnabled enabled =
     try_catch
       (AsyncStorage_setItem BIOMETRIC_ENABLED (Raw (if enabled then ''true'' else ''false'')))
       (\<lambda>err. throw (Error ''Failed to update biometric preference''))"

definition AuthStorage_storeBiometricCredentials :: "BiometricCredentials \<Rightarrow> unit promise" where
  "AuthStorage_storeBiometricCredentials credentials =
     try_catch
       (SecureStore_setItemAsync BIOMETRIC_CREDENTIALS (CredentialsJson credentials))
       (\<lambda>err. throw (Error ''Failed to store biometric credentials''))"

definition AuthStorage_getBiometricCredentials :: "BiometricCredentials option promise" where
  "AuthStorage_getBiometricCredentials =
     try_catch
       (await (SecureStore_getItemAsync BIOMETRIC_CREDENTIALS) (\<lambda>credentialsJson.
          if nonempty credentialsJson
          then (case JSON_parse_credentials (the credentialsJson) of
                  Inl e \<Rightarrow> throw e | Inr c \<Rightarrow> resolve (Some c))
          else resolve None))
       (\<lambda>err. resolve None)"

text \<open>
  \<^verbatim>\<open>clearAll\<close>: the four deletions of the array run one after the other, each to its
  end; \<^verbatim>\<open>clearTokens\<close> and \<^verbatim>\<open>clearUser\<close> never reject, the two bare deletions may, and
  the rejection is caught.
\<close>

definition AuthStorage_clearAll :: "unit promise" where
  "AuthStorage_clearAll =
     try_catch
       (await (Promise_all2
                 (Promise_all2 AuthStorage_clearTokens AuthStorage_clearUser)
                 (Promise_all2 (AsyncStorage_removeItem BIOMETRIC_ENABLED)
                               (SecureStore_deleteItemAsync BIOMETRIC_CREDENTIALS)))
              (\<lambda>_. resolve ()))
       (\<lambda>err. resolve ())"

text \<open>
  \<^verbatim>\<open>isTokenExpired\<close> and \<^verbatim>\<open>isTokenExpiringSoon\<close> read the clock; \<open>now\<close> is the value of
  \<^verbatim>\<open>Date.now()\<close>.
\<close>

definition AuthStorage_isTokenExpired :: "int \<Rightarrow> AuthTokens \<Rightarrow> bool" where
  "AuthStorage_isTokenExpired now t = (now \<ge> expiresAt t)"

definition fiveMinutes :: int where
  "fiveMinutes = 5 * 60 * 1000"

definition AuthStorage_isTokenExpiringSoon :: "int \<Rightarrow> AuthTokens \<Rightarrow> bool" where
  "AuthStorage_isTokenExpiringSoon now t = (now \<ge> expiresAt t - fiveMinutes)"

section \<open>The platform's network, browser session and biometric prompt\<close>

text \<open>
  The parsed JSON body of a reply, by the fields the source reads from it
  (\<^verbatim>\<open>data.user\<close>, \<^verbatim>\<open>data.accessToken\<close>, \<^verbatim>\<open>data.refreshToken\<close>, \<^verbatim>\<open>data.expiresIn\<close>,
  \<^verbatim>\<open>errorData.message\<close>), and the reply itself: \<^verbatim>\<open>response.ok\<close> and the outcome of
  \<^verbatim>\<open>response.json()\<close>.
\<close>

record data =
  data_message :: "string option"
  data_user :: "User option"
  data_accessToken :: string
  data_refreshToken :: "string option"
  data_expiresIn :: int

record response =
  ok :: bool
  json :: "js_error + data"

text \<open>The result of \<^verbatim>\<open>request.promptAsync\<close>: \<^verbatim>\<open>result.type\<close> and \<^verbatim>\<open>result.params.code\<close>.\<close>

record AuthSessionResult =
  result_type :: string
  params_code :: string

text \<open>The result of \<^verbatim>\<open>LocalAuthentication.authenticateAsync\<close>.\<close>

record LocalAuthenticationResult =
  success :: bool
  result_error :: string

datatype AuthenticationType = FINGERPRINT | FACIAL_RECOGNITION | IRIS | OtherType nat

text \<open>
  How the collaborators outside the repository answer during one operation: the clock,
  the server (the reply to a request, or the transport error \<^verbatim>\<open>fetch\<close> throws), the
  browser-based OAuth session, and the biometric hardware and prompt. The answers are
  fixed for the run; the clock does not advance within an operation.
\<close>

record env =
  Date_now :: int
  fetch :: "request \<Rightarrow> js_error + response"
  makeRedirectUri :: "string \<Rightarrow> string"
  promptAsync :: "string \<Rightarrow> js_error + AuthSessionResult"
  hasHardwareAsync :: "js_error + bool"
  isEnrolledAsync :: "js_error + bool"
  supportedAuthenticationTypesAsync :: "js_error + AuthenticationType list"
  authenticateAsync :: "string \<Rightarrow> js_error + LocalAuthenticationResult"

text \<open>\<^verbatim>\<open>await fetch(...)\<close>: the request is recorded and the server's answer returned.\<close>

definition do_fetch :: "env \<Rightarrow> request \<Rightarrow> response promise" where
  "do_fetch E rq w = (fetch E rq, w\<lparr>requests := requests w @ [rq]\<rparr>)"

text \<open>\<^verbatim>\<open>a || b\<close> on strings.\<close>

definition or_else :: "string option \<Rightarrow> string \<Rightarrow> string" where
  "or_else a b = (if truthy a then the a else b)"

section \<open>AuthAPI (api.ts)\<close>

definition AuthAPI_initialize :: "AuthConfig \<Rightarrow> world \<Rightarrow> world" where
  "AuthAPI_initialize config w = w\<lparr>api_config := Some config\<rparr>"

text \<open>
  \<^verbatim>\<open>this.config.apiBaseUrl\<close>: reading a property of \<^verbatim>\<open>undefined\<close> throws a
  \<^verbatim>\<open>TypeError\<close>. The wording of its message is the engine's; the one given here is
  V8's.
\<close>

definition config_TypeError :: js_error where
  "config_TypeError = TypeError ''Cannot read properties of undefined (reading 'apiBaseUrl')''"

definition config_apiBaseUrl :: "string promise" where
  "config_apiBaseUrl w =
     (case api_config w of
        None \<Rightarrow> (Inl config_TypeError, w)
      | Some config \<Rightarrow> (Inr (apiBaseUrl config), w))"

text \<open>
  The block each of the four login functions repeats after its \<^verbatim>\<open>fetch\<close>: a reply that
  is not \<^verbatim>\<open>ok\<close> throws its message or the function's own default; an \<^verbatim>\<open>ok\<close> reply
  becomes a \<^verbatim>\<open>LoginResponse\<close> whose \<^verbatim>\<open>expiresAt\<close> is \<^verbatim>\<open>Date.now() + expiresIn * 1000\<close>.
\<close>

definition login_response :: "env \<Rightarrow> string \<Rightarrow> response \<Rightarrow> LoginResponse promise" where
  "login_response E fallback rsp =
     (if \<not> ok rsp then
        (case json rsp of
           Inl e \<Rightarrow> throw e
         | Inr errorData \<Rightarrow> throw (Error (or_else (data_message errorData) fallback)))
      else
        (case json rsp of
           Inl e \<Rightarrow> throw e
         | Inr d \<Rightarrow>
             resolve \<lparr>response_user = data_user d,
                      response_tokens =
                        \<lparr>accessToken = data_accessToken d,
                         refreshToken = data_refreshToken d,
                         idToken = None,
                         expiresAt = Date_now E + data_expiresIn d * 1000\<rparr>\<rparr>))"

definition AuthAPI_login :: "env \<Rightarrow> LoginCredentials \<Rightarrow> LoginResponse promise" where
  "AuthAPI_login E credentials =
     try_catch
       (await config_apiBaseUrl (\<lambda>base.
        await (do_fetch E \<lparr>url = base @ ''/auth/login'', bearer = None,
                 body = [(''email'', login_email credentials),
                         (''password'', password credentials)]\<rparr>)
          (login_response E ''Login failed'')))
       (\<lambda>err. throw err)"

definition AuthAPI_loginWithHash :: "env \<Rightarrow> BiometricCredentials \<Rightarrow> LoginResponse promise" where
  "AuthAPI_loginWithHash E credentials =
     try_catch
       (await config_apiBaseUrl (\<lambda>base.
        await (do_fetch E \<lparr>url = base @ ''/auth/login-hash'', bearer = None,
                 body = [(''email'', credentials_email credentials),
                         (''hashedPassword'', hashedPassword credentials)]\<rparr>)
          (login_response E ''Hash login failed'')))
       (\<lambda>err. throw err)"

text \<open>\<^verbatim>\<open>await request.promptAsync({ authorizationEndpoint })\<close>.\<close>

definition do_promptAsync :: "env \<Rightarrow> string \<Rightarrow> AuthSessionResult promise" where
  "do_promptAsync E authorizationEndpoint w = (promptAsync E authorizationEndpoint, w)"

definition AuthAPI_loginWithGoogle :: "env \<Rightarrow> GoogleOAuthConfig \<Rightarrow> LoginResponse promise" where
  "AuthAPI_loginWithGoogle E config =
     try_catch
       (let redirectUri = makeRedirectUri E ''/oauth/google/callback'' in
        await (do_promptAsync E ''https://accounts.google.com/oauth/authorize'') (\<lambda>result.
          if result_type result \<noteq> ''success''
          then throw (Error ''Google OAuth cancelled or failed'')
          else
            await config_apiBaseUrl (\<lambda>base.
            await (do_fetch E \<lparr>url = base @ ''/auth/oauth/google'', bearer = None,
                     body = [(''code'', params_code result), (''redirectUri'', redirectUri)]\<rparr>)
              (login_response E ''Google OAuth login failed''))))
       (\<lambda>err. throw err)"

definition AuthAPI_loginWithMicrosoft :: "env \<Rightarrow> MicrosoftOAuthConfig \<Rightarrow> LoginResponse promise" where
  "AuthAPI_loginWithMicrosoft E config =
     try_catch
       (let tenantId = or_else (microsoft_tenantId config) ''common'';
            redirectUri = makeRedirectUri E ''/oauth/microsoft/callback'' in
        await (do_promptAsync E
                 (''https://login.microsoftonline.com/'' @ tenantId @ ''/oauth2/v2.0/authorize''))
          (\<lambda>result.
          if result_type result \<noteq> ''success''
          then throw (Error ''Microsoft OAuth cancelled or failed'')
          else
            await config_apiBaseUrl (\<lambda>base.
            await (do_fetch E \<lparr>url = base @ ''/auth/oauth/microsoft'', bearer = None,
                     body = [(''code'', params_code result), (''redirectUri'', redirectUri),
                             (''tenantId'', tenantId)]\<rparr>)
              (login_response E ''Microsoft OAuth login failed''))))
       (\<lambda>err. throw err)"

text \<open>
  \<^verbatim>\<open>AuthAPI.refreshToken\<close>: as the login block, but the new record's refresh token is
  \<^verbatim>\<open>data.refreshToken || refreshToken\<close>.
\<close>

definition AuthAPI_refreshToken :: "env \<Rightarrow> string \<Rightarrow> LoginResponse promise" where
  "AuthAPI_refreshToken E rt =
     try_catch
       (await config_apiBaseUrl (\<lambda>base.
        await (do_fetch E \<lparr>url = base @ ''/auth/refresh'', bearer = None,
                 body = [(''refreshToken'', rt)]\<rparr>) (\<lambda>rsp.
          if \<not> ok rsp then
            (case json rsp of
               Inl e \<Rightarrow> throw e
             | Inr errorData \<Rightarrow>
                 throw (Error (or_else (data_message errorData) ''Token refresh failed'')))
          else
            (case json rsp of
               Inl e \<Rightarrow> throw e
             | Inr d \<Rightarrow>
                 resolve \<lparr>response_user = data_user d,
                          response_tokens =
                            \<lparr>accessToken = data_accessToken d,
                             refreshToken = Some (or_else (data_refreshToken d) rt),
                             idToken = None,
                             expiresAt = Date_now E + data_expiresIn d * 1000\<rparr>\<rparr>))))
       (\<lambda>err. throw err)"

text \<open>
  \<^verbatim>\<open>AuthAPI.logout\<close>: the reply is not read, and the \<^verbatim>\<open>catch\<close> block does not rethrow
  (``Don't throw error for logout - local cleanup is more important'').
\<close>

definition AuthAPI_logout :: "env \<Rightarrow> string \<Rightarrow> unit promise" where
  "AuthAPI_logout E token =
     try_catch
       (await config_apiBaseUrl (\<lambda>base.
        await (do_fetch E \<lparr>url = base @ ''/auth/logout'', bearer = Some token, body = []\<rparr>)
          (\<lambda>_. resolve ())))
       (\<lambda>err. resolve ())"

text \<open>
  \<^verbatim>\<open>AuthAPI.getProfile\<close> returns the parsed body as it is (the source types it as
  \<^verbatim>\<open>User\<close> without a check).
\<close>

definition AuthAPI_getProfile :: "env \<Rightarrow> string \<Rightarrow> data promise" where
  "AuthAPI_getProfile E token =
     try_catch
       (await config_apiBaseUrl (\<lambda>base.
        await (do_fetch E \<lparr>url = base @ ''/auth/profile'', bearer = Some token, body = []\<rparr>)
          (\<lambda>rsp.
          if \<not> ok rsp then
            (case json rsp of
               Inl e \<Rightarrow> throw e
             | Inr errorData \<Rightarrow>
                 throw (Error (or_else (data_message errorData) ''Failed to get profile'')))
          else (case json rsp of Inl e \<Rightarrow> throw e | Inr u \<Rightarrow> resolve u))))
       (\<lambda>err. throw err)"

section \<open>BiometricAuth (biometric.ts)\<close>

text \<open>A call of a platform function that changes nothing here: its answer, as the environment gives it.\<close>

definition platform :: "js_error + 'a \<Rightarrow> 'a promise" where
  "platform r w = (r, w)"

fun typeName :: "AuthenticationType \<Rightarrow> string" where
  "typeName FINGERPRINT = ''fingerprint''"
| "typeName FACIAL_RECOGNITION = ''face-id''"
| "typeName IRIS = ''iris''"
| "typeName (OtherType _) = ''unknown''"

definition BiometricAuth_checkCapabilities :: "env \<Rightarrow> BiometricCapabilities promise" where
  "BiometricAuth_checkCapabilities E =
     try_catch
       (await (Promise_all2 (platform (hasHardwareAsync E))
                 (Promise_all2 (platform (isEnrolledAsync E))
                               (platform (supportedAuthenticationTypesAsync E))))
          (\<lambda>(hw, enrolled, types).
             resolve \<lparr>isAvailable = (hw \<and> enrolled), hasHardware = hw, isEnrolled = enrolled,
                      supportedTypes = map typeName types\<rparr>))
       (\<lambda>err. resolve \<lparr>isAvailable = False, hasHardware = False, isEnrolled = False,
                        supportedTypes = []\<rparr>)"

text \<open>\<^verbatim>\<open>await LocalAuthentication.authenticateAsync({ promptMessage, ... })\<close>: the prompt is recorded.\<close>

definition do_authenticateAsync :: "env \<Rightarrow> string \<Rightarrow> LocalAuthenticationResult promise" where
  "do_authenticateAsync E promptMessage w =
     (authenticateAsync E promptMessage, w\<lparr>prompts := prompts w @ [promptMessage]\<rparr>)"

definition BiometricAuth_authenticate :: "env \<Rightarrow> string option \<Rightarrow> unit promise" where
  "BiometricAuth_authenticate E promptMessage =
     try_catch
       (await (BiometricAuth_checkCapabilities E) (\<lambda>capabilities.
          if \<not> isAvailable capabilities
          then throw (Error ''Biometric authentication is not available'')
          else
            await (do_authenticateAsync E (or_else promptMessage ''Authenticate with biometrics''))
              (\<lambda>result.
                 if \<not> success result then
                   (if result_error result = ''user_cancel''
                    then throw (Error ''Authentication was cancelled'')
                    else if result_error result = ''not_enrolled''
                    then throw (Error ''No biometric authentication is enrolled'')
                    else if result_error result = ''not_available''
                    then throw (Error ''Biometric authentication is not available'')
                    else throw (Error (''Authentication failed: '' @ result_error result)))
                 else resolve ())))
       (\<lambda>err. throw err)"

section \<open>AuthProvider (context.tsx)\<close>

text \<open>
  The functions of the component. Each takes the environment \<open>E\<close> and what its closure
  holds: the merged configuration \<open>config\<close> and the state \<open>s\<close> of the render that
  created it (\<^verbatim>\<open>user\<close>, \<^verbatim>\<open>tokens\<close>). A function that calls another one of the same
  render (\<^verbatim>\<open>refreshToken\<close> calls \<^verbatim>\<open>logout\<close>, \<^verbatim>\<open>initializeAuth\<close> calls both) hands it
  the same \<open>s\<close>: a setter call does not change what the closure reads.
\<close>

definition setState :: "update \<Rightarrow> unit promise" where
  "setState u w = (Inr (), w\<lparr>updates := updates w @ [u]\<rparr>)"

fun apply_update :: "session \<Rightarrow> update \<Rightarrow> session" where
  "apply_update s (SetUser u) = s\<lparr>user := u\<rparr>"
| "apply_update s (SetTokens t) = s\<lparr>tokens := t\<rparr>"
| "apply_update s (SetIsLoading b) = s\<lparr>isLoading := b\<rparr>"
| "apply_update s (SetError e) = s\<lparr>error := e\<rparr>"

text \<open>The state of the next render: the setter calls applied in order.\<close>

definition commit :: "session \<Rightarrow> update list \<Rightarrow> session" where
  "commit s us = foldl apply_update s us"

text \<open>The \<^verbatim>\<open>useState\<close> initial values.\<close>

definition initial_session :: session where
  "initial_session = \<lparr>user = None, tokens = None, isLoading = True, error = None\<rparr>"

text \<open>\<^verbatim>\<open>!!user && !!tokens && !AuthStorage.isTokenExpired(tokens)\<close>.\<close>

definition isAuthenticated :: "int \<Rightarrow> session \<Rightarrow> bool" where
  "isAuthenticated now s =
     (user s \<noteq> None \<and> tokens s \<noteq> None \<and> \<not> AuthStorage_isTokenExpired now (the (tokens s)))"

definition AuthProvider_logout :: "env \<Rightarrow> session \<Rightarrow> unit promise" where
  "AuthProvider_logout E s =
     try_finally
       (try_catch
          (await (setState (SetIsLoading True)) (\<lambda>_.
           await (case tokens s of
                    Some t \<Rightarrow>
                      try_catch (AuthAPI_logout E (accessToken t)) (\<lambda>err. resolve ())
                  | None \<Rightarrow> resolve ()) (\<lambda>_.
           await AuthStorage_clearAll (\<lambda>_.
           await (setState (SetUser None)) (\<lambda>_.
           await (setState (SetTokens None)) (\<lambda>_.
           setState (SetError None)))))))
          (\<lambda>err. setState (SetError (Some ''Logout failed''))))
       (setState (SetIsLoading False))"

text \<open>\<^verbatim>\<open>tokens?.refreshToken\<close>.\<close>

definition tokens_refreshToken :: "session \<Rightarrow> string option" where
  "tokens_refreshToken s = (case tokens s of None \<Rightarrow> None | Some t \<Rightarrow> refreshToken t)"

text \<open>The \<^verbatim>\<open>try\<close> block of \<^verbatim>\<open>refreshToken\<close>, and the function with its \<^verbatim>\<open>catch\<close>.\<close>

definition refreshToken_try :: "env \<Rightarrow> session \<Rightarrow> unit promise" where
  "refreshToken_try E s =
     (if \<not> truthy (tokens_refreshToken s)
      then throw (Error ''No refresh token available'')
      else
        await (AuthAPI_refreshToken E (the (tokens_refreshToken s))) (\<lambda>rsp.
        await (AuthStorage_storeTokens (response_tokens rsp)) (\<lambda>_.
        await (setState (SetTokens (Some (response_tokens rsp)))) (\<lambda>_.
        if response_user rsp \<noteq> None
        then await (AuthStorage_storeUser (response_user rsp)) (\<lambda>_.
             setState (SetUser (response_user rsp)))
        else resolve ()))))"

definition AuthProvider_refreshToken :: "env \<Rightarrow> session \<Rightarrow> unit promise" where
  "AuthProvider_refreshToken E s =
     try_catch (refreshToken_try E s)
       (\<lambda>err. await (AuthProvider_logout E s) (\<lambda>_. throw err))"

text \<open>
  \<^verbatim>\<open>initializeAuth\<close>. In \<^verbatim>\<open>Promise.all([getTokens(), getUser()])\<close>, \<^verbatim>\<open>getTokens\<close>
  suspends at its read of the token record, \<^verbatim>\<open>getUser\<close> issues its read, and
  \<^verbatim>\<open>getTokens\<close> reads the separate refresh token afterwards.
\<close>

definition initializeAuth :: "env \<Rightarrow> session \<Rightarrow> unit promise" where
  "initializeAuth E s =
     try_finally
       (try_catch
          (await (setState (SetIsLoading True)) (\<lambda>_.
           await (Promise_all2_staged (SecureStore_getItemAsync TOKENS) getTokens_rest
                    AuthStorage_getUser)
             (\<lambda>(storedTokens, storedUser).
                if storedTokens \<noteq> None \<and> storedUser \<noteq> None
                   \<and> \<not> AuthStorage_isTokenExpired (Date_now E) (the storedTokens)
                then await (setState (SetTokens storedTokens)) (\<lambda>_.
                     setState (SetUser storedUser))
                else if storedTokens \<noteq> None
                        \<and> AuthStorage_isTokenExpired (Date_now E) (the storedTokens)
                then try_catch (AuthProvider_refreshToken E s)
                       (\<lambda>err. AuthProvider_logout E s)
                else resolve ())))
          (\<lambda>err. setState (SetError (Some ''Failed to initialize authentication''))))
       (setState (SetIsLoading False))"







text \<open>\<^verbatim>\<open>user?.email\<close>.\<close>

definition user_email :: "session \<Rightarrow> string option" where
  "user_email s = (case user s of None \<Rightarrow> None | Some u \<Rightarrow> Some (email u))"

definition AuthProvider_enableBiometrics :: "env \<Rightarrow> session \<Rightarrow> bool promise" where
  "AuthProvider_enableBiometrics E s =
     try_catch
       (await (BiometricAuth_checkCapabilities E) (\<lambda>capabilities.
          if \<not> isAvailable capabilities
          then throw (Error ''Biometric authentication is not available'')
          else
            await (BiometricAuth_authenticate E (Some ''Enable biometric authentication'')) (\<lambda>_.
              if \<not> truthy (user_email s) then throw (Error ''User email not available'')
              else
                let credentials =
                      \<lparr>credentials_email = the (user_email s),
                       hashedPassword = ''hashed_password_placeholder''\<rparr>
                in
                  await (AuthStorage_storeBiometricCredentials credentials) (\<lambda>_.
                  await (AuthStorage_setBiometricEnabled True) (\<lambda>_.
                  resolve True)))))
       (\<lambda>err. await (setState (SetError (Some (or_else (Some (error_message err))
                                                  ''Failed to enable biometrics''))))
                (\<lambda>_. resolve False))"


definition clearError :: "unit promise" where
  "clearError = setState (SetError None)"

section \<open>Running an operation\<close>

text \<open>
  The setter calls an operation makes when it starts with none pending, and the
  operation run from the state \<open>s\<close> of the current render: its outcome, the state of the
  next render, and the world it leaves.
\<close>

definition trace :: "'a promise \<Rightarrow> world \<Rightarrow> update list" where
  "trace m w = updates (snd (m (w\<lparr>updates := []\<rparr>)))"

definition run :: "'a promise \<Rightarrow> session \<Rightarrow> world \<Rightarrow> (js_error + 'a) \<times> session \<times> world" where
  "run m s w =
     (case m (w\<lparr>updates := []\<rparr>) of
        (r, w') \<Rightarrow> (r, commit s (updates w'), w'\<lparr>updates := []\<rparr>))"

text \<open>The state \<^verbatim>\<open>logout\<close> leaves.\<close>

definition logged_out :: session where
  "logged_out = \<lparr>user = None, tokens = None, isLoading = False, error = None\<rparr>"

text \<open>The error \<^verbatim>\<open>storeTokens\<close> throws.\<close>

definition StorageFailure :: js_error where
  "StorageFailure = Error ''Failed to store authentication tokens''"

text \<open>The \<^verbatim>\<open>hashedPassword\<close> of the biometric credentials in the secure store, if any.\<close>

definition stored_hashedPassword :: "world \<Rightarrow> string option" where
  "stored_hashedPassword w =
     (case secure w BIOMETRIC_CREDENTIALS of
        Some (CredentialsJson c) \<Rightarrow> Some (hashedPassword c)
      | _ \<Rightarrow> None)"

text \<open>No store call faults from here on.\<close>

definition fault_free :: "world \<Rightarrow> bool" where
  "fault_free w = (True \<notin> set (faults w))"

text \<open>
  The \<open>n\<close>-th store call from here on faults (\<open>fs\<close> is what is left of the fault
  schedule; the next call is number 0).
\<close>

definition faults_at :: "bool list \<Rightarrow> nat \<Rightarrow> bool" where
  "faults_at fs n = (n < length fs \<and> fs ! n)"

text \<open>
  Predicates for the proofs: an operation keeps a property of the world; the pending
  setter calls start with \<^verbatim>\<open>setIsLoading(true)\<close>; none of them is a \<^verbatim>\<open>setIsLoading\<close>.
\<close>

definition maintains :: "(world \<Rightarrow> bool) \<Rightarrow> 'b promise \<Rightarrow> bool" where
  "maintains P m = (\<forall>w. P w \<longrightarrow> P (snd (m w)))"

definition loading_on :: "world \<Rightarrow> bool" where
  "loading_on v = (\<exists>us. updates v = SetIsLoading True # us)"


section \<open>Concrete inputs\<close>

text \<open>\<^verbatim>\<open>defaultConfig\<close> of \<^verbatim>\<open>context.tsx\<close>.\<close>

definition defaultConfig :: AuthConfig where
  "defaultConfig = \<lparr>apiBaseUrl = ''https://api.example.com'', sessionTimeout = 60,
     config_enableBiometrics = True, biometricPrompt = Some ''Use your biometric to sign in'',
     enableAutoRefresh = True, oauth_google = None, oauth_microsoft = None\<rparr>"

definition alice :: User where
  "alice = \<lparr>id = ''1'', email = ''a@b.com'', name = ''Alice'', avatar = None, role = None,
     permissions = None\<rparr>"

definition bob :: User where
  "bob = \<lparr>id = ''2'', email = ''bob@c.org'', name = ''Bob'', avatar = None, role = None,
     permissions = None\<rparr>"

text \<open>A record that expired at 4000, one the server issues at 5000 for an hour, and one without a refresh token.\<close>

definition old_tokens :: AuthTokens where
  "old_tokens = \<lparr>accessToken = ''access-1'', refreshToken = Some ''refresh-1'', idToken = None,
     expiresAt = 4000\<rparr>"

definition issued_tokens :: AuthTokens where
  "issued_tokens = \<lparr>accessToken = ''access-2'', refreshToken = Some ''refresh-2'', idToken = None,
     expiresAt = 3605000\<rparr>"

definition no_refresh_tokens :: AuthTokens where
  "no_refresh_tokens = \<lparr>accessToken = ''access-3'', refreshToken = None, idToken = None,
     expiresAt = 9000\<rparr>"

text \<open>
  At time 5000: a server that answers every request with \<^verbatim>\<open>ok\<close> and new tokens, on a
  device whose biometric prompt succeeds; and the same with the network down.
\<close>

definition server_ok :: env where
  "server_ok = \<lparr>Date_now = 5000,
     fetch = (\<lambda>rq. Inr \<lparr>ok = True, json = Inr \<lparr>data_message = None, data_user = None,
        data_accessToken = ''access-2'', data_refreshToken = Some ''refresh-2'',
        data_expiresIn = 3600\<rparr>\<rparr>),
     makeRedirectUri = (\<lambda>path. ''com.bca.authkit:/'' @ path),
     promptAsync = (\<lambda>endpoint. Inr \<lparr>result_type = ''success'', params_code = ''code''\<rparr>),
     hasHardwareAsync = Inr True, isEnrolledAsync = Inr True,
     supportedAuthenticationTypesAsync = Inr [FINGERPRINT],
     authenticateAsync = (\<lambda>prompt. Inr \<lparr>success = True, result_error = []\<rparr>)\<rparr>"

definition server_down :: env where
  "server_down = server_ok\<lparr>fetch := (\<lambda>rq. Inl (Error ''Network request failed''))\<rparr>"

text \<open>
  A device on which \<open>alice\<close> logged in earlier (her records are stored), one on which
  nothing is stored and \<^verbatim>\<open>AuthAPI.initialize\<close> has not run, and one with biometric login
  enabled.
\<close>

definition stored_world :: world where
  "stored_world =
     \<lparr>secure = [TOKENS \<mapsto> TokensJson old_tokens, REFRESH_TOKEN \<mapsto> Raw ''refresh-1''],
      async = [USER \<mapsto> UserJson alice], faults = [], api_config = Some defaultConfig,
      requests = [], prompts = [], updates = []\<rparr>"

definition uninitialized_world :: world where
  "uninitialized_world = \<lparr>secure = Map.empty, async = Map.empty, faults = [], api_config = None,
     requests = [], prompts = [], updates = []\<rparr>"

definition enrolled_credentials :: BiometricCredentials where
  "enrolled_credentials =
     \<lparr>credentials_email = ''a@b.com'', hashedPassword = ''hashed_password_placeholder''\<rparr>"


definition authenticated_session :: session where
  "authenticated_session =
     \<lparr>user = Some alice, tokens = Some old_tokens, isLoading = False, error = None\<rparr>"

section \<open>Frame rules\<close>

text \<open>
  A property of the world that every primitive effect of an operation keeps is kept by
  the operation. The rules follow the structure of the promise; the effects are the
  consumption of a fault, a write to either store, a request, a prompt and a setter call.
\<close>

named_theorems frame

lemma maintainsD: "maintains P m \<Longrightarrow> P w \<Longrightarrow> P (snd (m w))"
  by (simp add: maintains_def)

lemma maintains_resolve [frame]: "maintains P (resolve x)"
  by (simp add: maintains_def resolve_def)

lemma maintains_throw [frame]: "maintains P (throw e)"
  by (simp add: maintains_def throw_def)

lemma maintains_platform [frame]: "maintains P (platform r)"
  by (simp add: maintains_def platform_def)

lemma maintains_await [frame]:
  assumes "maintains P m" and "\<And>x. maintains P (k x)"
  shows "maintains P (await m k)"
  unfolding maintains_def await_def
proof (intro allI impI)
  fix w assume "P w"
  then have "P (snd (m w))" using assms(1) by (simp add: maintains_def)
  then show "P (snd (case m w of (Inl e, w') \<Rightarrow> (Inl e, w') | (Inr x, w') \<Rightarrow> k x w'))"
    using assms(2) by (cases "m w") (auto simp: maintains_def split: sum.splits)
qed

lemma maintains_try_catch [frame]:
  assumes "maintains P m" and "\<And>e. maintains P (h e)"
  shows "maintains P (try_catch m h)"
  unfolding maintains_def try_catch_def
proof (intro allI impI)
  fix w assume "P w"
  then have "P (snd (m w))" using assms(1) by (simp add: maintains_def)
  then show "P (snd (case m w of (Inl e, w') \<Rightarrow> h e w' | (Inr x, w') \<Rightarrow> (Inr x, w')))"
    using assms(2) by (cases "m w") (auto simp: maintains_def split: sum.splits)
qed

lemma maintains_try_finally [frame]:
  assumes "maintains P m" and "maintains P g"
  shows "maintains P (try_finally m g)"
  unfolding maintains_def try_finally_def
proof (intro allI impI)
  fix w assume "P w"
  then have "P (snd (m w))" using assms(1) by (simp add: maintains_def)
  then have "P (snd (g (snd (m w))))" using assms(2) by (simp add: maintains_def)
  then show "P (snd (case m w of (r, w') \<Rightarrow>
        (case g w' of (Inl e, w'') \<Rightarrow> (Inl e, w'') | (Inr _, w'') \<Rightarrow> (r, w''))))"
    by (cases "m w"; cases "g (snd (m w))") (auto split: sum.splits)
qed

lemma maintains_Promise_all2 [frame]:
  assumes "maintains P a" and "maintains P b"
  shows "maintains P (Promise_all2 a b)"
  unfolding maintains_def Promise_all2_def
proof (intro allI impI)
  fix w assume "P w"
  then have "P (snd (a w))" using assms(1) by (simp add: maintains_def)
  then have "P (snd (b (snd (a w))))" using assms(2) by (simp add: maintains_def)
  then show "P (snd (case a w of (ra, w1) \<Rightarrow>
        (case b w1 of (rb, w2) \<Rightarrow>
           (case ra of
              Inl e \<Rightarrow> (Inl e, w2)
            | Inr x \<Rightarrow> (case rb of Inl e \<Rightarrow> (Inl e, w2) | Inr y \<Rightarrow> (Inr (x, y), w2))))))"
    by (cases "a w"; cases "b (snd (a w))") (auto split: sum.splits)
qed

lemma maintains_settled [frame]: "maintains P (settled r)"
  by (simp add: maintains_def settled_def)

lemma maintains_Promise_all2_staged [frame]:
  assumes "maintains P first" and "\<And>r. maintains P (rest r)" and "maintains P b"
  shows "maintains P (Promise_all2_staged first rest b)"
  unfolding maintains_def Promise_all2_staged_def
proof (intro allI impI)
  fix w assume "P w"
  then have "P (snd (first w))" using assms(1) by (simp add: maintains_def)
  then have "P (snd (b (snd (first w))))" using assms(3) by (simp add: maintains_def)
  then have "P (snd (rest (fst (first w)) (snd (b (snd (first w))))))"
    using assms(2) by (simp add: maintains_def)
  then show "P (snd (case first w of (r1, w1) \<Rightarrow>
        (case b w1 of (rb, w2) \<Rightarrow>
           (case rest r1 w2 of (ra, w3) \<Rightarrow>
              (case ra of
                 Inl e \<Rightarrow> (Inl e, w3)
               | Inr x \<Rightarrow> (case rb of Inl e \<Rightarrow> (Inl e, w3) | Inr y \<Rightarrow> (Inr (x, y), w3)))))))"
    by (cases "first w"; cases "b (snd (first w))";
        cases "rest (fst (first w)) (snd (b (snd (first w))))")
       (auto split: sum.splits)
qed

lemma maintains_if [frame]:
  "(c \<Longrightarrow> maintains P a) \<Longrightarrow> (\<not> c \<Longrightarrow> maintains P b) \<Longrightarrow> maintains P (if c then a else b)"
  by simp

lemma maintains_case_option [frame]:
  "maintains P a \<Longrightarrow> (\<And>y. maintains P (b y)) \<Longrightarrow>
   maintains P (case x of None \<Rightarrow> a | Some y \<Rightarrow> b y)"
  by (cases x) simp_all

lemma maintains_case_sum [frame]:
  "(\<And>y. maintains P (a y)) \<Longrightarrow> (\<And>y. maintains P (b y)) \<Longrightarrow>
   maintains P (case x of Inl y \<Rightarrow> a y | Inr y \<Rightarrow> b y)"
  by (cases x) simp_all

lemma maintains_case_prod [frame]:
  "(\<And>a b. maintains P (g a b)) \<Longrightarrow> maintains P (case p of (a, b) \<Rightarrow> g a b)"
  by (cases p) simp

lemma maintains_let [frame]:
  "maintains P (g x) \<Longrightarrow> maintains P (let y = x in g y)"
  by simp

subsection \<open>The store primitives and the collaborators\<close>

lemma next_fault_cases:
  "next_fault w = (False, w) \<and> faults w = []
   \<or> (\<exists>b. next_fault w = (b, w\<lparr>faults := tl (faults w)\<rparr>) \<and> faults w \<noteq> [])"
  by (cases "faults w") (simp_all add: next_fault_def)

lemma maintains_next_fault:
  assumes "\<And>w. P w \<Longrightarrow> P (w\<lparr>faults := tl (faults w)\<rparr>)" and "P w"
  shows "P (snd (next_fault w))"
  using assms next_fault_cases [of w] by auto

lemma maintains_SecureStore_setItemAsync [frame]:
  assumes "\<And>w. P w \<Longrightarrow> P (w\<lparr>faults := tl (faults w)\<rparr>)"
      and "\<And>w x. P w \<Longrightarrow> P (w\<lparr>secure := x\<rparr>)"
  shows "maintains P (SecureStore_setItemAsync k v)"
  unfolding maintains_def SecureStore_setItemAsync_def
  using assms(2) maintains_next_fault [where P = P, OF assms(1)]
  by (auto split: prod.splits bool.splits) (metis snd_conv)+

lemma maintains_SecureStore_getItemAsync [frame]:
  assumes "\<And>w. P w \<Longrightarrow> P (w\<lparr>faults := tl (faults w)\<rparr>)"
  shows "maintains P (SecureStore_getItemAsync k)"
  unfolding maintains_def SecureStore_getItemAsync_def
  using maintains_next_fault [where P = P, OF assms(1)]
  by (auto split: prod.splits bool.splits) (metis snd_conv)+

lemma maintains_SecureStore_deleteItemAsync [frame]:
  assumes "\<And>w. P w \<Longrightarrow> P (w\<lparr>faults := tl (faults w)\<rparr>)"
      and "\<And>w x. P w \<Longrightarrow> P (w\<lparr>secure := x\<rparr>)"
  shows "maintains P (SecureStore_deleteItemAsync k)"
  unfolding maintains_def SecureStore_deleteItemAsync_def
  using assms(2) maintains_next_fault [where P = P, OF assms(1)]
  by (auto split: prod.splits bool.splits) (metis snd_conv)+

lemma maintains_AsyncStorage_setItem [frame]:
  assumes "\<And>w. P w \<Longrightarrow> P (w\<lparr>faults := tl (faults w)\<rparr>)"
      and "\<And>w x. P w \<Longrightarrow> P (w\<lparr>async := x\<rparr>)"
  shows "maintains P (AsyncStorage_setItem k v)"
  unfolding maintains_def AsyncStorage_setItem_def
  using assms(2) maintains_next_fault [where P = P, OF assms(1)]
  by (auto split: prod.splits bool.splits) (metis snd_conv)+

lemma maintains_AsyncStorage_getItem [frame]:
  assumes "\<And>w. P w \<Longrightarrow> P (w\<lparr>faults := tl (faults w)\<rparr>)"
  shows "maintains P (AsyncStorage_getItem k)"
  unfolding maintains_def AsyncStorage_getItem_def
  using maintains_next_fault [where P = P, OF assms(1)]
  by (auto split: prod.splits bool.splits) (metis snd_conv)+

lemma maintains_AsyncStorage_removeItem [frame]:
  assumes "\<And>w. P w \<Longrightarrow> P (w\<lparr>faults := tl (faults w)\<rparr>)"
      and "\<And>w x. P w \<Longrightarrow> P (w\<lparr>async := x\<rparr>)"
  shows "maintains P (AsyncStorage_removeItem k)"
  unfolding maintains_def AsyncStorage_removeItem_def
  using assms(2) maintains_next_fault [where P = P, OF assms(1)]
  by (auto split: prod.splits bool.splits) (metis snd_conv)+

lemma maintains_do_fetch [frame]:
  assumes "\<And>w x. P w \<Longrightarrow> P (w\<lparr>requests := x\<rparr>)"
  shows "maintains P (do_fetch E rq)"
  using assms by (simp add: maintains_def do_fetch_def)

lemma maintains_do_promptAsync [frame]: "maintains P (do_promptAsync E a)"
  by (simp add: maintains_def do_promptAsync_def)

lemma maintains_config_apiBaseUrl [frame]: "maintains P config_apiBaseUrl"
  by (simp add: maintains_def config_apiBaseUrl_def split: option.splits)

lemma maintains_do_authenticateAsync [frame]:
  assumes "\<And>w x. P w \<Longrightarrow> P (w\<lparr>prompts := x\<rparr>)"
  shows "maintains P (do_authenticateAsync E m)"
  using assms by (simp add: maintains_def do_authenticateAsync_def)

lemma maintains_setState [frame]:
  assumes "\<And>w. P w \<Longrightarrow> P (w\<lparr>updates := updates w @ [u]\<rparr>)"
  shows "maintains P (setState u)"
  using assms by (simp add: maintains_def setState_def)

subsection \<open>The functions of AuthStorage, AuthAPI and BiometricAuth\<close>

lemma maintains_AuthStorage:
  assumes "\<And>w. P w \<Longrightarrow> P (w\<lparr>faults := tl (faults w)\<rparr>)"
      and "\<And>w x. P w \<Longrightarrow> P (w\<lparr>secure := x\<rparr>)"
      and "\<And>w x. P w \<Longrightarrow> P (w\<lparr>async := x\<rparr>)"
  shows "maintains P (AuthStorage_storeTokens t)"
    and "maintains P AuthStorage_getTokens"
    and "maintains P AuthStorage_clearTokens"
    and "maintains P (AuthStorage_storeUser u)"
    and "maintains P AuthStorage_getUser"
    and "maintains P AuthStorage_clearUser"
    and "maintains P AuthStorage_isBiometricEnabled"
    and "maintains P (AuthStorage_setBiometricEnabled b)"
    and "maintains P (AuthStorage_storeBiometricCredentials c)"
    and "maintains P AuthStorage_getBiometricCredentials"
    and "maintains P (storeTokens_rest t r)"
    and "maintains P (getTokens_rest r')"
  unfolding storeTokens_rest_def getTokens_rest_def AuthStorage_storeTokens_def AuthStorage_getTokens_def AuthStorage_clearTokens_def
    AuthStorage_storeUser_def AuthStorage_getUser_def AuthStorage_clearUser_def
    AuthStorage_isBiometricEnabled_def AuthStorage_setBiometricEnabled_def
    AuthStorage_storeBiometricCredentials_def AuthStorage_getBiometricCredentials_def
  by (intro frame; (rule assms, assumption)?)+

lemma maintains_AuthStorage_clearAll:
  assumes "\<And>w. P w \<Longrightarrow> P (w\<lparr>faults := tl (faults w)\<rparr>)"
      and "\<And>w x. P w \<Longrightarrow> P (w\<lparr>secure := x\<rparr>)"
      and "\<And>w x. P w \<Longrightarrow> P (w\<lparr>async := x\<rparr>)"
  shows "maintains P AuthStorage_clearAll"
  unfolding AuthStorage_clearAll_def
  by (intro frame maintains_AuthStorage; (rule assms, assumption)?)+

lemma maintains_AuthAPI:
  assumes "\<And>w x. P w \<Longrightarrow> P (w\<lparr>requests := x\<rparr>)"
  shows "maintains P (AuthAPI_login E c)"
    and "maintains P (AuthAPI_loginWithHash E h)"
    and "maintains P (AuthAPI_loginWithGoogle E g)"
    and "maintains P (AuthAPI_loginWithMicrosoft E m)"
    and "maintains P (AuthAPI_refreshToken E r)"
    and "maintains P (AuthAPI_logout E a)"
    and "maintains P (AuthAPI_getProfile E a)"
  unfolding AuthAPI_login_def AuthAPI_loginWithHash_def AuthAPI_loginWithGoogle_def
    AuthAPI_loginWithMicrosoft_def AuthAPI_refreshToken_def AuthAPI_logout_def
    AuthAPI_getProfile_def login_response_def
  by (intro frame; (rule assms, assumption)?)+


section \<open>Lemmas about the operations\<close>

subsection \<open>Runs without store faults\<close>

lemma no_fault_tl: "True \<notin> set xs \<Longrightarrow> True \<notin> set (tl xs)"
  by (cases xs) auto

lemma no_fault_next_fault:
  "True \<notin> set (faults w) \<Longrightarrow> next_fault w = (False, w\<lparr>faults := tl (faults w)\<rparr>)"
  by (cases "faults w") (auto simp: next_fault_def)

lemmas fault_free_simps = fault_free_def no_fault_next_fault no_fault_tl

lemmas promise_defs = resolve_def throw_def await_def try_catch_def try_finally_def
  Promise_all2_def settled_def Promise_all2_staged_def

lemmas store_defs = SecureStore_setItemAsync_def SecureStore_getItemAsync_def
  SecureStore_deleteItemAsync_def AsyncStorage_setItem_def AsyncStorage_getItem_def
  AsyncStorage_removeItem_def

subsection \<open>\<^verbatim>\<open>clearAll\<close> and \<^verbatim>\<open>logout\<close>\<close>

lemma clearAll_resolves: "fst (AuthStorage_clearAll w) = Inr ()"
  by (simp add: AuthStorage_clearAll_def promise_defs split: prod.splits sum.splits)


lemma AuthAPI_logout_resolves: "fst (AuthAPI_logout E a w) = Inr ()"
  by (simp add: AuthAPI_logout_def promise_defs split: prod.splits sum.splits)

lemma logout_unfold:
  "\<exists>w2 w3. secure w2 = secure w \<and> async w2 = async w \<and> faults w2 = faults w
      \<and> updates w2 = updates w @ [SetIsLoading True]
      \<and> AuthStorage_clearAll w2 = (Inr (), w3)
      \<and> AuthProvider_logout E s w =
          (Inr (), w3\<lparr>updates := updates w3
              @ [SetUser None, SetTokens None, SetError None, SetIsLoading False]\<rparr>)"
proof -
  define A where "A = (case tokens s of
      Some t \<Rightarrow> try_catch (AuthAPI_logout E (accessToken t)) (\<lambda>err. resolve ())
    | None \<Rightarrow> resolve ())"
  define w1 where "w1 = w\<lparr>updates := updates w @ [SetIsLoading True]\<rparr>"
  have A_ok: "fst (A w1) = Inr ()"
    using AuthAPI_logout_resolves
    by (auto simp: A_def promise_defs split: option.splits prod.splits sum.splits)
  have A_frame: "maintains (\<lambda>v. secure v = secure w1 \<and> async v = async w1
      \<and> faults v = faults w1 \<and> updates v = updates w1) A"
    unfolding A_def by (intro frame maintains_AuthAPI; simp)
  define w2 where "w2 = snd (A w1)"
  have w2: "A w1 = (Inr (), w2)" "secure w2 = secure w" "async w2 = async w"
    "faults w2 = faults w" "updates w2 = updates w @ [SetIsLoading True]"
    using A_ok maintainsD [OF A_frame, of w1] by (simp_all add: w2_def w1_def prod_eq_iff)
  define w3 where "w3 = snd (AuthStorage_clearAll w2)"
  have w3: "AuthStorage_clearAll w2 = (Inr (), w3)"
    using clearAll_resolves [of w2] by (simp add: w3_def prod_eq_iff)
  have "AuthProvider_logout E s w =
          (Inr (), w3\<lparr>updates := updates w3
              @ [SetUser None, SetTokens None, SetError None, SetIsLoading False]\<rparr>)"
    using w2(1) w3 unfolding AuthProvider_logout_def A_def [symmetric]
    by (simp add: promise_defs setState_def w1_def [symmetric])
  with w2 w3 show ?thesis by blast
qed

lemmas AuthStorage_defs = AuthStorage_storeTokens_def AuthStorage_getTokens_def
  AuthStorage_clearTokens_def AuthStorage_storeUser_def AuthStorage_getUser_def
  AuthStorage_clearUser_def AuthStorage_isBiometricEnabled_def AuthStorage_setBiometricEnabled_def
  AuthStorage_storeBiometricCredentials_def AuthStorage_getBiometricCredentials_def
  AuthStorage_clearAll_def storeTokens_rest_def getTokens_rest_def

subsection \<open>What \<^verbatim>\<open>clearAll\<close> leaves under any fault schedule\<close>

text \<open>
  \<^verbatim>\<open>clearAll\<close> makes five deletions, in the order token record, separate refresh
  token, user record, biometric flag, biometric credentials; a key is emptied unless
  its own deletion faults. \<^verbatim>\<open>logout\<close> makes no other store call.
\<close>

lemma faults_at_tl [simp]: "faults_at (tl fs) n = faults_at fs (Suc n)"
  by (cases fs) (auto simp: faults_at_def)

lemma next_fault_eq: "next_fault w = (faults_at (faults w) 0, w\<lparr>faults := tl (faults w)\<rparr>)"
  by (cases "faults w") (simp_all add: next_fault_def faults_at_def)

lemma SecureStore_deleteItemAsync_eq:
  "SecureStore_deleteItemAsync k w =
     (if faults_at (faults w) 0
      then (Inl (Error ''SecureStore fault''), w\<lparr>faults := tl (faults w)\<rparr>)
      else (Inr (), w\<lparr>faults := tl (faults w), secure := (secure w)(k := None)\<rparr>))"
  by (simp add: SecureStore_deleteItemAsync_def next_fault_eq)

lemma AsyncStorage_removeItem_eq:
  "AsyncStorage_removeItem k w =
     (if faults_at (faults w) 0
      then (Inl (Error ''AsyncStorage fault''), w\<lparr>faults := tl (faults w)\<rparr>)
      else (Inr (), w\<lparr>faults := tl (faults w), async := (async w)(k := None)\<rparr>))"
  by (simp add: AsyncStorage_removeItem_def next_fault_eq)

lemma clearTokens_world:
  "snd (AuthStorage_clearTokens w) =
     snd (SecureStore_deleteItemAsync REFRESH_TOKEN (snd (SecureStore_deleteItemAsync TOKENS w)))"
  by (simp add: AuthStorage_clearTokens_def promise_defs split: prod.splits sum.splits)

lemma clearTokens_exact:
  "faults (snd (AuthStorage_clearTokens w)) = tl (tl (faults w))"
  "async (snd (AuthStorage_clearTokens w)) = async w"
  "secure (snd (AuthStorage_clearTokens w)) TOKENS
     = (if faults_at (faults w) 0 then secure w TOKENS else None)"
  "secure (snd (AuthStorage_clearTokens w)) REFRESH_TOKEN
     = (if faults_at (faults w) (Suc 0) then secure w REFRESH_TOKEN else None)"
  unfolding clearTokens_world SecureStore_deleteItemAsync_eq by simp_all

lemma clearUser_world:
  "snd (AuthStorage_clearUser w) = snd (AsyncStorage_removeItem USER w)"
  by (simp add: AuthStorage_clearUser_def promise_defs split: prod.splits sum.splits)

lemma clearUser_exact:
  "faults (snd (AuthStorage_clearUser w)) = tl (faults w)"
  "secure (snd (AuthStorage_clearUser w)) = secure w"
  "async (snd (AuthStorage_clearUser w)) USER
     = (if faults_at (faults w) 0 then async w USER else None)"
  unfolding clearUser_world AsyncStorage_removeItem_eq by simp_all

lemma clearAll_world:
  "snd (AuthStorage_clearAll w) =
     snd (SecureStore_deleteItemAsync BIOMETRIC_CREDENTIALS
       (snd (AsyncStorage_removeItem BIOMETRIC_ENABLED
         (snd (AuthStorage_clearUser (snd (AuthStorage_clearTokens w)))))))"
  by (simp add: AuthStorage_clearAll_def promise_defs split: prod.splits sum.splits)

lemma clearAll_exact:
  "secure (snd (AuthStorage_clearAll w)) TOKENS
     = (if faults_at (faults w) 0 then secure w TOKENS else None)"
  "secure (snd (AuthStorage_clearAll w)) REFRESH_TOKEN
     = (if faults_at (faults w) 1 then secure w REFRESH_TOKEN else None)"
  "async (snd (AuthStorage_clearAll w)) USER
     = (if faults_at (faults w) 2 then async w USER else None)"
  unfolding clearAll_world SecureStore_deleteItemAsync_eq AsyncStorage_removeItem_eq
  by (simp_all add: clearTokens_exact clearUser_exact eval_nat_numeral)


lemma logout_exact:
  "secure (snd (AuthProvider_logout E s w)) TOKENS
     = (if faults_at (faults w) 0 then secure w TOKENS else None)"
  "secure (snd (AuthProvider_logout E s w)) REFRESH_TOKEN
     = (if faults_at (faults w) 1 then secure w REFRESH_TOKEN else None)"
  "async (snd (AuthProvider_logout E s w)) USER
     = (if faults_at (faults w) 2 then async w USER else None)"
proof -
  obtain w2 w3 where *:
    "AuthProvider_logout E s w =
       (Inr (), w3\<lparr>updates := updates w3
           @ [SetUser None, SetTokens None, SetError None, SetIsLoading False]\<rparr>)"
    "secure w2 = secure w" "async w2 = async w" "faults w2 = faults w"
    "AuthStorage_clearAll w2 = (Inr (), w3)"
    using logout_unfold [of w E s] by blast
  have w3:
    "secure w3 TOKENS = (if faults_at (faults w) 0 then secure w TOKENS else None)"
    "secure w3 REFRESH_TOKEN = (if faults_at (faults w) 1 then secure w REFRESH_TOKEN else None)"
    "async w3 USER = (if faults_at (faults w) 2 then async w USER else None)"
    using clearAll_exact [of w2] *(2-5) by simp_all
  show "secure (snd (AuthProvider_logout E s w)) TOKENS
     = (if faults_at (faults w) 0 then secure w TOKENS else None)"
    using w3(1) *(1) by simp
  show "secure (snd (AuthProvider_logout E s w)) REFRESH_TOKEN
     = (if faults_at (faults w) 1 then secure w REFRESH_TOKEN else None)"
    using w3(2) *(1) by simp
  show "async (snd (AuthProvider_logout E s w)) USER
     = (if faults_at (faults w) 2 then async w USER else None)"
    using w3(3) *(1) by simp
qed

subsection \<open>The two functions that suspend between their store calls\<close>

text \<open>Each is its first store call followed by its rest.\<close>

lemma storeTokens_staged:
  "AuthStorage_storeTokens t w =
     (case SecureStore_setItemAsync TOKENS (TokensJson t) w of (r, w') \<Rightarrow> storeTokens_rest t r w')"
  by (simp add: AuthStorage_storeTokens_def storeTokens_rest_def resolve_def throw_def await_def
      try_catch_def settled_def split: prod.splits sum.splits)

lemma getTokens_staged:
  "AuthStorage_getTokens w =
     (case SecureStore_getItemAsync TOKENS w of (r, w') \<Rightarrow> getTokens_rest r w')"
  by (simp add: AuthStorage_getTokens_def getTokens_rest_def resolve_def throw_def await_def
      try_catch_def settled_def split: prod.splits sum.splits)

subsection \<open>Token round trip\<close>

text \<open>
  Without store faults, \<^verbatim>\<open>getTokens\<close> after \<^verbatim>\<open>storeTokens(r)\<close> returns \<open>r\<close> when \<open>r\<close>
  carries a non-empty refresh token or no non-empty refresh token is stored separately;
  after \<^verbatim>\<open>clearTokens\<close> it returns nothing.
\<close>

lemma storeTokens_getTokens_roundtrip:
  assumes "fault_free w"
      and "truthy (refreshToken r) \<or> \<not> truthy (Some (the_string (secure w REFRESH_TOKEN)))"
  shows "fst (AuthStorage_getTokens (snd (AuthStorage_storeTokens r w))) = Inr (Some r)"
  using assms
  by (cases "refreshToken r")
     (auto simp: AuthStorage_defs promise_defs store_defs fault_free_simps)

lemma clearTokens_getTokens_absent:
  assumes "fault_free w"
  shows "fst (AuthStorage_getTokens (snd (AuthStorage_clearTokens w))) = Inr None"
  using assms
  by (simp add: AuthStorage_defs promise_defs store_defs fault_free_simps)

subsection \<open>What \<^verbatim>\<open>logout\<close> and \<^verbatim>\<open>refreshToken\<close> leave\<close>

lemma commit_logout:
  "commit s (us @ [SetIsLoading True, SetUser None, SetTokens None, SetError None, SetIsLoading False])
     = logged_out"
  by (simp add: commit_def logged_out_def)



lemma logout_updates:
  "fst (AuthProvider_logout E s w) = Inr ()"
  "updates (snd (AuthProvider_logout E s w)) =
     updates w @ [SetIsLoading True, SetUser None, SetTokens None, SetError None, SetIsLoading False]"
proof -
  obtain w2 w3 where *:
    "AuthProvider_logout E s w =
       (Inr (), w3\<lparr>updates := updates w3
           @ [SetUser None, SetTokens None, SetError None, SetIsLoading False]\<rparr>)"
    "updates w2 = updates w @ [SetIsLoading True]"
    "AuthStorage_clearAll w2 = (Inr (), w3)"
    using logout_unfold [of w E s] by blast
  have "updates w3 = updates w2"
    using maintainsD [OF maintains_AuthStorage_clearAll [where P = "\<lambda>v. updates v = updates w2"], of w2]
      *(3) by simp
  with * show "fst (AuthProvider_logout E s w) = Inr ()"
    and "updates (snd (AuthProvider_logout E s w)) =
     updates w @ [SetIsLoading True, SetUser None, SetTokens None, SetError None, SetIsLoading False]"
    by simp_all
qed

lemma refreshToken_cases:
  "(\<exists>w1. refreshToken_try E s w = (Inr (), w1) \<and> AuthProvider_refreshToken E s w = (Inr (), w1))
   \<or> (\<exists>e w1. refreshToken_try E s w = (Inl e, w1)
         \<and> AuthProvider_refreshToken E s w = (Inl e, snd (AuthProvider_logout E s w1)))"
proof (cases "refreshToken_try E s w")
  case (Pair r w1)
  show ?thesis
  proof (cases r)
    case (Inl e)
    with Pair logout_updates(1) [of E s w1] show ?thesis
      by (cases "AuthProvider_logout E s w1")
         (simp add: AuthProvider_refreshToken_def promise_defs)
  next
    case (Inr u)
    with Pair show ?thesis by (simp add: AuthProvider_refreshToken_def promise_defs)
  qed
qed


lemma run_world: "snd (snd (run m s w)) = (snd (m (w\<lparr>updates := []\<rparr>)))\<lparr>updates := []\<rparr>"
  by (simp add: run_def split: prod.splits)

lemma run_result: "fst (run m s w) = fst (m (w\<lparr>updates := []\<rparr>))"
  by (simp add: run_def split: prod.splits)

lemma run_session: "fst (snd (run m s w)) = commit s (trace m w)"
  by (simp add: run_def trace_def split: prod.splits)

subsection \<open>The loading flag\<close>

lemma loading_on_upd [simp]:
  "loading_on (w\<lparr>faults := f\<rparr>) = loading_on w"
  "loading_on (w\<lparr>secure := x\<rparr>) = loading_on w"
  "loading_on (w\<lparr>async := y\<rparr>) = loading_on w"
  "loading_on (w\<lparr>requests := z\<rparr>) = loading_on w"
  "loading_on (w\<lparr>prompts := p\<rparr>) = loading_on w"
  "loading_on w \<Longrightarrow> loading_on (w\<lparr>updates := updates w @ [u]\<rparr>)"
  by (auto simp: loading_on_def)





subsection \<open>\<^verbatim>\<open>enableBiometrics\<close>\<close>

lemma store_credentials_then_enable:
  assumes "fst (await (AuthStorage_storeBiometricCredentials c) (\<lambda>_.
                await (AuthStorage_setBiometricEnabled True) (\<lambda>_. resolve True)) w) = Inr True"
  shows "secure (snd (await (AuthStorage_storeBiometricCredentials c) (\<lambda>_.
                await (AuthStorage_setBiometricEnabled True) (\<lambda>_. resolve True)) w))
           BIOMETRIC_CREDENTIALS = Some (CredentialsJson c)"
  using assms
  by (cases "faults w"; cases "hd (faults w)"; cases "tl (faults w)"; cases "hd (tl (faults w))")
     (simp_all add: promise_defs AuthStorage_storeBiometricCredentials_def
      AuthStorage_setBiometricEnabled_def store_defs next_fault_def)

lemma enableBiometrics_stores:
  assumes "fst (AuthProvider_enableBiometrics E s w) = Inr True"
  shows "secure (snd (AuthProvider_enableBiometrics E s w)) BIOMETRIC_CREDENTIALS =
           Some (CredentialsJson \<lparr>credentials_email = the (user_email s),
                                  hashedPassword = ''hashed_password_placeholder''\<rparr>)"
proof -
  define T where "T = await (AuthStorage_storeBiometricCredentials
      \<lparr>credentials_email = the (user_email s), hashedPassword = ''hashed_password_placeholder''\<rparr>)
      (\<lambda>_. await (AuthStorage_setBiometricEnabled True) (\<lambda>_. resolve True))"
  obtain r1 wa where a: "BiometricAuth_checkCapabilities E w = (r1, wa)"
    by (cases "BiometricAuth_checkCapabilities E w")
  obtain r2 wb where b:
    "BiometricAuth_authenticate E (Some ''Enable biometric authentication'') wa = (r2, wb)"
    by (cases "BiometricAuth_authenticate E (Some ''Enable biometric authentication'') wa")
  obtain r3 wc where c: "T wb = (r3, wc)"
    by (cases "T wb")
  have "AuthProvider_enableBiometrics E s w = (Inr True, wc) \<and> r3 = Inr True"
    using assms a b c
    unfolding AuthProvider_enableBiometrics_def Let_def T_def [symmetric]
    by (cases r1; cases r2; cases r3)
       (simp_all add: try_catch_def await_def throw_def resolve_def setState_def split: if_splits)
  then show ?thesis
    using c store_credentials_then_enable
      [of "\<lparr>credentials_email = the (user_email s),
            hashedPassword = ''hashed_password_placeholder''\<rparr>" wb]
    unfolding T_def by simp
qed




lemmas evaluation = promise_defs store_defs AuthStorage_defs next_fault_def setState_def
  do_fetch_def config_apiBaseUrl_def or_else_def platform_def do_authenticateAsync_def
  commit_def run_def trace_def

section \<open>The claims\<close>

subsection \<open>C1: an expired stored record at start-up\<close>

text \<open>
  C1 says that \<^verbatim>\<open>initialize()\<close>, finding an expired stored record with a valid refresh
  token and a gateway whose refresh succeeds, calls the gateway's refresh once and ends
  authenticated with the new record persisted. On that input the source does otherwise:
  \<^verbatim>\<open>initializeAuth\<close> calls \<^verbatim>\<open>refreshToken()\<close>, which reads the refresh token from the
  component's state, still empty at start-up, and not from the stored record. It throws
  ``No refresh token available'', \<^verbatim>\<open>logout\<close> runs, and the run ends logged out with
  both stores emptied and no request sent.
\<close>

theorem initializeAuth_expired_tokens_no_refresh:
  "run (initializeAuth server_ok initial_session) initial_session stored_world =
     (Inr (), logged_out, stored_world\<lparr>secure := Map.empty, async := Map.empty\<rparr>)
   \<and> requests (snd (snd (run (initializeAuth server_ok initial_session) initial_session
         stored_world))) = []
   \<and> AuthStorage_isTokenExpired (Date_now server_ok) old_tokens"
  by (simp add: evaluation initializeAuth_def AuthProvider_refreshToken_def refreshToken_try_def
      AuthProvider_logout_def tokens_refreshToken_def initial_session_def stored_world_def
      server_ok_def old_tokens_def alice_def defaultConfig_def logged_out_def
      AuthStorage_isTokenExpired_def)

subsection \<open>C2: storing and reading back a token record\<close>

text \<open>
  C2 says that \<^verbatim>\<open>storeTokens(r)\<close> followed by \<^verbatim>\<open>getTokens()\<close> returns \<open>r\<close> whatever was
  stored before. The source keeps the refresh token under a key of its own, writes that
  key only when \<open>r\<close> has a refresh token and never deletes it in \<^verbatim>\<open>storeTokens\<close>: after
  storing a record without a refresh token over an earlier one, \<^verbatim>\<open>getTokens\<close> returns
  the new record with the earlier record's refresh token.
\<close>

theorem getTokens_returns_stale_refreshToken:
  "fst (AuthStorage_storeTokens no_refresh_tokens stored_world) = Inr () \<and>
   fst (AuthStorage_getTokens (snd (AuthStorage_storeTokens no_refresh_tokens stored_world)))
     = Inr (Some (no_refresh_tokens\<lparr>refreshToken := Some ''refresh-1''\<rparr>)) \<and>
   no_refresh_tokens\<lparr>refreshToken := Some ''refresh-1''\<rparr> \<noteq> no_refresh_tokens"
  by (simp add: evaluation stored_world_def no_refresh_tokens_def old_tokens_def)

subsection \<open>C3: the gateway before \<^verbatim>\<open>initialize\<close>\<close>

text \<open>
  C3, as amended: before \<^verbatim>\<open>AuthAPI.initialize\<close> has run, \<^verbatim>\<open>login\<close>, \<^verbatim>\<open>loginWithHash\<close>,
  \<^verbatim>\<open>refreshToken\<close> and \<^verbatim>\<open>getProfile\<close> fail, with the \<^verbatim>\<open>TypeError\<close> of reading
  \<^verbatim>\<open>apiBaseUrl\<close> from the missing configuration (the source has no error of its own for
  this) and without sending a request; \<^verbatim>\<open>logout\<close> does not fail: it catches that error
  too and returns normally.
\<close>

theorem AuthAPI_before_initialize:
  "api_config w = None \<Longrightarrow>
     AuthAPI_login E c w = (Inl config_TypeError, w) \<and>
     AuthAPI_loginWithHash E h w = (Inl config_TypeError, w) \<and>
     AuthAPI_refreshToken E r w = (Inl config_TypeError, w) \<and>
     AuthAPI_getProfile E a w = (Inl config_TypeError, w) \<and>
     AuthAPI_logout E a w = (Inr (), w)"
  by (simp add: AuthAPI_login_def AuthAPI_loginWithHash_def AuthAPI_refreshToken_def
      AuthAPI_getProfile_def AuthAPI_logout_def promise_defs config_apiBaseUrl_def)

theorem AuthAPI_before_initialize_witness:
  "api_config uninitialized_world = None \<and>
   AuthAPI_login server_ok \<lparr>login_email = ''a@b.com'', password = ''x''\<rparr> uninitialized_world
     = (Inl config_TypeError, uninitialized_world) \<and>
   AuthAPI_loginWithHash server_ok enrolled_credentials uninitialized_world
     = (Inl config_TypeError, uninitialized_world) \<and>
   AuthAPI_refreshToken server_ok ''refresh-1'' uninitialized_world
     = (Inl config_TypeError, uninitialized_world) \<and>
   AuthAPI_getProfile server_ok ''access-1'' uninitialized_world
     = (Inl config_TypeError, uninitialized_world) \<and>
   AuthAPI_logout server_ok ''access-1'' uninitialized_world = (Inr (), uninitialized_world)"
proof -
  have none: "api_config uninitialized_world = None"
    by (simp add: uninitialized_world_def)
  show ?thesis
    using none AuthAPI_before_initialize [where w = uninitialized_world and E = server_ok
        and c = "\<lparr>login_email = ''a@b.com'', password = ''x''\<rparr>" and h = enrolled_credentials
        and r = "''refresh-1''" and a = "''access-1''", OF none]
    by simp
qed

text \<open>The claim fails for \<^verbatim>\<open>logout\<close>: called before \<^verbatim>\<open>initialize\<close>, it returns without an error.\<close>

theorem AuthAPI_logout_before_initialize_resolves:
  "api_config uninitialized_world = None \<and>
   fst (AuthAPI_logout server_ok ''access-1'' uninitialized_world) = Inr ()"
  by (simp add: AuthAPI_logout_def promise_defs config_apiBaseUrl_def uninitialized_world_def)

subsection \<open>C4: \<^verbatim>\<open>disableBiometrics\<close>\<close>




subsection \<open>C5: a store fault during \<^verbatim>\<open>storeTokens\<close>\<close>

text \<open>
  C5, as amended: a store fault during \<^verbatim>\<open>storeTokens\<close> makes it fail with its
  StorageFailure error, and that is the only error it throws. A fault of the first write
  (the token record) leaves the store untouched. A fault of the second write (the
  separately stored refresh token) comes after the token record has been overwritten:
  the new record stays written and the separately stored refresh token keeps its
  earlier value.
\<close>

theorem storeTokens_fault_points:
  "(faults w = True # fs \<longrightarrow>
      AuthStorage_storeTokens r w = (Inl StorageFailure, w\<lparr>faults := fs\<rparr>)) \<and>
   (faults w = False # True # fs \<and> truthy (refreshToken r) \<longrightarrow>
      AuthStorage_storeTokens r w =
        (Inl StorageFailure, w\<lparr>faults := fs, secure := (secure w)(TOKENS \<mapsto> TokensJson r)\<rparr>)) \<and>
   (fst (AuthStorage_storeTokens r w) = Inr () \<or>
    fst (AuthStorage_storeTokens r w) = Inl StorageFailure)"
  by (simp add: AuthStorage_defs promise_defs store_defs next_fault_def StorageFailure_def
      split: list.splits bool.splits)

theorem storeTokens_fault_points_witness:
  "AuthStorage_storeTokens issued_tokens (stored_world\<lparr>faults := [True]\<rparr>)
     = (Inl StorageFailure, stored_world) \<and>
   AuthStorage_storeTokens issued_tokens (stored_world\<lparr>faults := [False, True]\<rparr>)
     = (Inl StorageFailure,
        stored_world\<lparr>secure := (secure stored_world)(TOKENS \<mapsto> TokensJson issued_tokens)\<rparr>)"
  using storeTokens_fault_points [of "stored_world\<lparr>faults := [True]\<rparr>" "[]" issued_tokens]
    storeTokens_fault_points [of "stored_world\<lparr>faults := [False, True]\<rparr>" "[]" issued_tokens]
  by (simp add: stored_world_def issued_tokens_def)

text \<open>
  The claim fails when the second write faults: the stored record has been replaced,
  and \<^verbatim>\<open>getTokens\<close> then returns the new record with the old refresh token.
\<close>

theorem storeTokens_partial_overwrite:
  "fst (AuthStorage_storeTokens issued_tokens (stored_world\<lparr>faults := [False, True]\<rparr>))
     = Inl StorageFailure \<and>
   secure stored_world TOKENS = Some (TokensJson old_tokens) \<and>
   secure (snd (AuthStorage_storeTokens issued_tokens (stored_world\<lparr>faults := [False, True]\<rparr>)))
     TOKENS = Some (TokensJson issued_tokens) \<and>
   fst (AuthStorage_getTokens
          (snd (AuthStorage_storeTokens issued_tokens (stored_world\<lparr>faults := [False, True]\<rparr>))))
     = Inr (Some (issued_tokens\<lparr>refreshToken := Some ''refresh-1''\<rparr>))"
  by (simp add: evaluation stored_world_def issued_tokens_def old_tokens_def StorageFailure_def)

subsection \<open>C6: the loading flag\<close>






subsection \<open>C7: a failed refresh\<close>

text \<open>
  C7, as amended: \<^verbatim>\<open>refreshToken()\<close> fails when the state holds no refresh token, and
  whenever it fails, for whatever reason, it has run \<^verbatim>\<open>logout()\<close> before rethrowing:
  the resulting state has no user, no tokens, \<open>loading = false\<close>, and is not
  authenticated, in every case. In storage, each of the token record, the separately
  stored refresh token and the user record is absent afterwards unless its own deletion
  by \<^verbatim>\<open>clearAll\<close> faulted; \<^verbatim>\<open>clearAll\<close> swallows the fault, and that record then stays as
  it was when the refresh failed. (\<open>failed\<close> is the world at the end of the \<^verbatim>\<open>try\<close>
  block; the next three store calls from there are the three deletions.)
\<close>

theorem refreshToken_failure_logs_out:
  "(\<not> truthy (tokens_refreshToken s) \<longrightarrow>
      fst (run (AuthProvider_refreshToken E s) s w) = Inl (Error ''No refresh token available'')) \<and>
   (fst (run (AuthProvider_refreshToken E s) s w) \<noteq> Inr () \<longrightarrow>
      fst (snd (run (AuthProvider_refreshToken E s) s w)) = logged_out \<and>
      \<not> isAuthenticated now (fst (snd (run (AuthProvider_refreshToken E s) s w))) \<and>
      (let failed = snd (refreshToken_try E s (w\<lparr>updates := []\<rparr>));
           left = snd (snd (run (AuthProvider_refreshToken E s) s w))
       in secure left TOKENS
            = (if faults_at (faults failed) 0 then secure failed TOKENS else None) \<and>
          secure left REFRESH_TOKEN
            = (if faults_at (faults failed) 1 then secure failed REFRESH_TOKEN else None) \<and>
          async left USER
            = (if faults_at (faults failed) 2 then async failed USER else None)))"
proof -
  define w0 where "w0 = w\<lparr>updates := []\<rparr>"
  have missing: "fst (run (AuthProvider_refreshToken E s) s w)
      = Inl (Error ''No refresh token available'')"
    if "\<not> truthy (tokens_refreshToken s)"
  proof -
    have "refreshToken_try E s w0 = (Inl (Error ''No refresh token available''), w0)"
      using that by (simp add: refreshToken_try_def throw_def)
    then have "fst (AuthProvider_refreshToken E s w0) = Inl (Error ''No refresh token available'')"
      using refreshToken_cases [of E s w0] by auto
    then show ?thesis by (simp add: run_result w0_def)
  qed
  have failed:
    "fst (snd (run (AuthProvider_refreshToken E s) s w)) = logged_out \<and>
      \<not> isAuthenticated now (fst (snd (run (AuthProvider_refreshToken E s) s w))) \<and>
      (let failed = snd (refreshToken_try E s (w\<lparr>updates := []\<rparr>));
           left = snd (snd (run (AuthProvider_refreshToken E s) s w))
       in secure left TOKENS
            = (if faults_at (faults failed) 0 then secure failed TOKENS else None) \<and>
          secure left REFRESH_TOKEN
            = (if faults_at (faults failed) 1 then secure failed REFRESH_TOKEN else None) \<and>
          async left USER
            = (if faults_at (faults failed) 2 then async failed USER else None))"
    if "fst (run (AuthProvider_refreshToken E s) s w) \<noteq> Inr ()"
  proof -
    have "fst (AuthProvider_refreshToken E s w0) \<noteq> Inr ()"
      using that by (simp add: run_result w0_def)
    then obtain e w1 where w1: "refreshToken_try E s w0 = (Inl e, w1)"
      "AuthProvider_refreshToken E s w0 = (Inl e, snd (AuthProvider_logout E s w1))"
      using refreshToken_cases [of E s w0] by auto
    have out: "fst (snd (run (AuthProvider_refreshToken E s) s w)) = logged_out"
      using w1(2) logout_updates(2) [of E s w1] commit_logout [of s "updates w1"]
      by (simp add: run_session trace_def w0_def)
    have unauthenticated:
      "\<not> isAuthenticated now (fst (snd (run (AuthProvider_refreshToken E s) s w)))"
      by (simp add: out isAuthenticated_def logged_out_def)
    have left: "snd (snd (run (AuthProvider_refreshToken E s) s w))
        = (snd (AuthProvider_logout E s w1))\<lparr>updates := []\<rparr>"
      using w1(2) by (simp add: run_world w0_def)
    have w1_eq: "snd (refreshToken_try E s (w\<lparr>updates := []\<rparr>)) = w1"
      using w1(1) by (simp add: w0_def)
    show ?thesis
      unfolding Let_def left w1_eq
      using out unauthenticated left logout_exact [of E s w1] by simp
  qed
  from missing failed show ?thesis by blast
qed

text \<open>
  Three failing refreshes of an authenticated session with stored records. With no
  refresh token in the state, nothing faulting: all three records are gone. With the
  write of the new token record faulting and the deletions succeeding: all three are
  gone. With the network down and the deletion of the token record faulting: that
  record stays, the other two are gone.
\<close>

theorem refreshToken_failure_logs_out_witness:
  "(fst (run (AuthProvider_refreshToken server_ok (authenticated_session\<lparr>tokens := None\<rparr>))
           (authenticated_session\<lparr>tokens := None\<rparr>) stored_world)
      = Inl (Error ''No refresh token available'') \<and>
    fst (snd (run (AuthProvider_refreshToken server_ok (authenticated_session\<lparr>tokens := None\<rparr>))
           (authenticated_session\<lparr>tokens := None\<rparr>) stored_world)) = logged_out \<and>
    secure (snd (snd (run (AuthProvider_refreshToken server_ok
           (authenticated_session\<lparr>tokens := None\<rparr>))
           (authenticated_session\<lparr>tokens := None\<rparr>) stored_world))) TOKENS = None \<and>
    secure (snd (snd (run (AuthProvider_refreshToken server_ok
           (authenticated_session\<lparr>tokens := None\<rparr>))
           (authenticated_session\<lparr>tokens := None\<rparr>) stored_world))) REFRESH_TOKEN = None \<and>
    async (snd (snd (run (AuthProvider_refreshToken server_ok
           (authenticated_session\<lparr>tokens := None\<rparr>))
           (authenticated_session\<lparr>tokens := None\<rparr>) stored_world))) USER = None) \<and>
   (fst (run (AuthProvider_refreshToken server_ok authenticated_session) authenticated_session
           (stored_world\<lparr>faults := [True]\<rparr>)) = Inl StorageFailure \<and>
    fst (snd (run (AuthProvider_refreshToken server_ok authenticated_session)
           authenticated_session (stored_world\<lparr>faults := [True]\<rparr>))) = logged_out \<and>
    secure (snd (snd (run (AuthProvider_refreshToken server_ok authenticated_session)
           authenticated_session (stored_world\<lparr>faults := [True]\<rparr>)))) TOKENS = None \<and>
    secure (snd (snd (run (AuthProvider_refreshToken server_ok authenticated_session)
           authenticated_session (stored_world\<lparr>faults := [True]\<rparr>)))) REFRESH_TOKEN = None \<and>
    async (snd (snd (run (AuthProvider_refreshToken server_ok authenticated_session)
           authenticated_session (stored_world\<lparr>faults := [True]\<rparr>)))) USER = None) \<and>
   (fst (run (AuthProvider_refreshToken server_down authenticated_session) authenticated_session
           (stored_world\<lparr>faults := [True]\<rparr>)) = Inl (Error ''Network request failed'') \<and>
    fst (snd (run (AuthProvider_refreshToken server_down authenticated_session)
           authenticated_session (stored_world\<lparr>faults := [True]\<rparr>))) = logged_out \<and>
    secure (snd (snd (run (AuthProvider_refreshToken server_down authenticated_session)
           authenticated_session (stored_world\<lparr>faults := [True]\<rparr>)))) TOKENS
      = Some (TokensJson old_tokens) \<and>
    secure (snd (snd (run (AuthProvider_refreshToken server_down authenticated_session)
           authenticated_session (stored_world\<lparr>faults := [True]\<rparr>)))) REFRESH_TOKEN = None \<and>
    async (snd (snd (run (AuthProvider_refreshToken server_down authenticated_session)
           authenticated_session (stored_world\<lparr>faults := [True]\<rparr>)))) USER = None)"
proof -
  have missing: "\<not> truthy (tokens_refreshToken (authenticated_session\<lparr>tokens := None\<rparr>))"
    by (simp add: tokens_refreshToken_def)
  have missing_try:
    "refreshToken_try server_ok (authenticated_session\<lparr>tokens := None\<rparr>)
       (stored_world\<lparr>updates := []\<rparr>)
     = (Inl (Error ''No refresh token available''), stored_world)"
    by (simp add: refreshToken_try_def tokens_refreshToken_def throw_def stored_world_def)
  have write_try:
    "refreshToken_try server_ok authenticated_session (stored_world\<lparr>faults := [True], updates := []\<rparr>)
     = (Inl StorageFailure,
        stored_world\<lparr>requests := [\<lparr>url = ''https://api.example.com/auth/refresh'',
          bearer = None, body = [(''refreshToken'', ''refresh-1'')]\<rparr>]\<rparr>)"
    by (simp add: evaluation refreshToken_try_def AuthAPI_refreshToken_def tokens_refreshToken_def
        authenticated_session_def stored_world_def server_ok_def old_tokens_def defaultConfig_def
        StorageFailure_def)
  have down_try:
    "refreshToken_try server_down authenticated_session
       (stored_world\<lparr>faults := [True], updates := []\<rparr>)
     = (Inl (Error ''Network request failed''),
        stored_world\<lparr>faults := [True],
          requests := [\<lparr>url = ''https://api.example.com/auth/refresh'',
          bearer = None, body = [(''refreshToken'', ''refresh-1'')]\<rparr>]\<rparr>)"
    by (simp add: evaluation refreshToken_try_def AuthAPI_refreshToken_def tokens_refreshToken_def
        authenticated_session_def stored_world_def server_down_def server_ok_def old_tokens_def
        defaultConfig_def)
  have write_fails:
    "fst (run (AuthProvider_refreshToken server_ok authenticated_session) authenticated_session
           (stored_world\<lparr>faults := [True]\<rparr>)) = Inl StorageFailure"
    using write_try
      refreshToken_cases [of server_ok authenticated_session
        "stored_world\<lparr>faults := [True], updates := []\<rparr>"]
    by (auto simp: run_result)
  have down_fails:
    "fst (run (AuthProvider_refreshToken server_down authenticated_session) authenticated_session
           (stored_world\<lparr>faults := [True]\<rparr>)) = Inl (Error ''Network request failed'')"
    using down_try
      refreshToken_cases [of server_down authenticated_session
        "stored_world\<lparr>faults := [True], updates := []\<rparr>"]
    by (auto simp: run_result)
  show ?thesis
    using missing missing_try write_try down_try write_fails down_fails
      refreshToken_failure_logs_out [where s = "authenticated_session\<lparr>tokens := None\<rparr>"
        and E = server_ok and w = stored_world and now = 5000]
      refreshToken_failure_logs_out [where s = authenticated_session and E = server_ok
        and w = "stored_world\<lparr>faults := [True]\<rparr>" and now = 5000]
      refreshToken_failure_logs_out [where s = authenticated_session and E = server_down
        and w = "stored_world\<lparr>faults := [True]\<rparr>" and now = 5000]
    by (simp add: Let_def faults_at_def stored_world_def StorageFailure_def)
qed

text \<open>
  The claim fails when a deletion faults: the refresh fails (the network is down), the
  deletion of the token record faults and is swallowed, and the record is still stored
  afterwards.
\<close>

theorem refreshToken_failure_tokens_remain:
  "fst (run (AuthProvider_refreshToken server_down authenticated_session) authenticated_session
          (stored_world\<lparr>faults := [True]\<rparr>)) = Inl (Error ''Network request failed'') \<and>
   secure (snd (snd (run (AuthProvider_refreshToken server_down authenticated_session)
                       authenticated_session (stored_world\<lparr>faults := [True]\<rparr>)))) TOKENS
     = Some (TokensJson old_tokens)"
  by (simp add: evaluation AuthProvider_refreshToken_def refreshToken_try_def
      AuthProvider_logout_def AuthAPI_refreshToken_def AuthAPI_logout_def tokens_refreshToken_def
      authenticated_session_def stored_world_def server_down_def server_ok_def old_tokens_def
      defaultConfig_def)

subsection \<open>C8: \<^verbatim>\<open>logout\<close> never raises and is idempotent\<close>



subsection \<open>C9: the session clock\<close>

text \<open>
  C9: for every token record \<open>r\<close> and time \<open>t\<close> (in milliseconds), \<^verbatim>\<open>isTokenExpired\<close> is
  \<open>t \<ge> r.expiresAt\<close>; \<^verbatim>\<open>isTokenExpiringSoon\<close> is true for every \<open>t\<close> from 300 seconds
  before \<open>r.expiresAt\<close> up to \<open>r.expiresAt\<close>, and false for every \<open>t\<close> before that window.
\<close>

theorem session_clock:
  "AuthStorage_isTokenExpired t r = (t \<ge> expiresAt r) \<and>
   (expiresAt r - 300 * 1000 \<le> t \<and> t < expiresAt r \<longrightarrow> AuthStorage_isTokenExpiringSoon t r) \<and>
   (t < expiresAt r - 300 * 1000 \<longrightarrow> \<not> AuthStorage_isTokenExpiringSoon t r)"
  by (simp add: AuthStorage_isTokenExpired_def AuthStorage_isTokenExpiringSoon_def fiveMinutes_def)

theorem session_clock_witness:
  "AuthStorage_isTokenExpiringSoon 3605000 issued_tokens \<and>
   AuthStorage_isTokenExpiringSoon 3305000 issued_tokens \<and>
   AuthStorage_isTokenExpiringSoon 3604999 issued_tokens \<and>
   \<not> AuthStorage_isTokenExpired 3604999 issued_tokens \<and>
   AuthStorage_isTokenExpired 3605000 issued_tokens \<and>
   \<not> AuthStorage_isTokenExpiringSoon 3304999 issued_tokens"
  using session_clock [of 3305000 issued_tokens] session_clock [of 3604999 issued_tokens]
    session_clock [of 3304999 issued_tokens] session_clock [of 3605000 issued_tokens]
  by (simp add: issued_tokens_def AuthStorage_isTokenExpiringSoon_def fiveMinutes_def)

subsection \<open>C10: the placeholder of \<^verbatim>\<open>enableBiometrics\<close>\<close>

text \<open>
  C10: every \<^verbatim>\<open>enableBiometrics()\<close> that returns true has stored a BiometricCredential
  whose \<^verbatim>\<open>hashedPassword\<close> is the fixed string \<open>hashed_password_placeholder\<close>; of two
  successful calls, in whatever sessions and on whatever devices, the stored
  \<^verbatim>\<open>hashedPassword\<close> values are the same (no password enters the function).
\<close>

theorem enableBiometrics_placeholder:
  "fst (AuthProvider_enableBiometrics E1 s1 w1) = Inr True \<and>
   fst (AuthProvider_enableBiometrics E2 s2 w2) = Inr True \<longrightarrow>
     stored_hashedPassword (snd (AuthProvider_enableBiometrics E1 s1 w1))
       = Some ''hashed_password_placeholder'' \<and>
     stored_hashedPassword (snd (AuthProvider_enableBiometrics E2 s2 w2))
       = stored_hashedPassword (snd (AuthProvider_enableBiometrics E1 s1 w1))"
  using enableBiometrics_stores [of E1 s1 w1] enableBiometrics_stores [of E2 s2 w2]
  by (simp add: stored_hashedPassword_def)

theorem enableBiometrics_placeholder_witness:
  "fst (AuthProvider_enableBiometrics server_ok authenticated_session stored_world) = Inr True \<and>
   fst (AuthProvider_enableBiometrics server_ok (authenticated_session\<lparr>user := Some bob\<rparr>)
          uninitialized_world) = Inr True \<and>
   stored_hashedPassword
       (snd (AuthProvider_enableBiometrics server_ok authenticated_session stored_world))
     = Some ''hashed_password_placeholder'' \<and>
   stored_hashedPassword
       (snd (AuthProvider_enableBiometrics server_ok (authenticated_session\<lparr>user := Some bob\<rparr>)
               uninitialized_world))
     = stored_hashedPassword
         (snd (AuthProvider_enableBiometrics server_ok authenticated_session stored_world))"
proof -
  have a: "fst (AuthProvider_enableBiometrics server_ok authenticated_session stored_world)
      = Inr True"
    by (simp add: evaluation AuthProvider_enableBiometrics_def BiometricAuth_authenticate_def
        BiometricAuth_checkCapabilities_def user_email_def authenticated_session_def alice_def
        stored_world_def server_ok_def)
  have b: "fst (AuthProvider_enableBiometrics server_ok
      (authenticated_session\<lparr>user := Some bob\<rparr>) uninitialized_world) = Inr True"
    by (simp add: evaluation AuthProvider_enableBiometrics_def BiometricAuth_authenticate_def
        BiometricAuth_checkCapabilities_def user_email_def authenticated_session_def bob_def
        uninitialized_world_def server_ok_def)
  show ?thesis
    using a b enableBiometrics_placeholder [of server_ok authenticated_session stored_world
        server_ok "authenticated_session\<lparr>user := Some bob\<rparr>" uninitialized_world]
    by simp
qed

end
